theory Spec2Isabelle
  imports Complex_Main "HOL-Library.Multiset"
begin

section \<open>Data model\<close>

text \<open>
  The scripts under \<^verbatim>\<open>scripts/\<close> talk to the Roam Research backend. Three pieces carry
  a contract: the HTTPS helper \<^verbatim>\<open>makeHttpsRequest\<close> of \<^verbatim>\<open>read-content.js\<close> and
  \<^verbatim>\<open>write-content.js\<close> (\<^verbatim>\<open>makeRoamRequest\<close> in \<^verbatim>\<open>create-pages.js\<close>), the block tree
  reader \<^verbatim>\<open>fetchChildren\<close> / \<^verbatim>\<open>buildBlockTree\<close> of \<^verbatim>\<open>read-content.js\<close>, and the daily
  note title \<^verbatim>\<open>getTodayRoamTitle\<close> of \<^verbatim>\<open>write-content.js\<close>.
\<close>

subsection \<open>Values that are thrown\<close>

text \<open>
  What the helper passes to \<^verbatim>\<open>reject\<close>, or throws: \<^verbatim>\<open>{statusCode, message: data}\<close> for a
  response that is not 200, the \<^verbatim>\<open>Error\<close> of the request's \<^verbatim>\<open>'error'\<close> event,
  \<^verbatim>\<open>new Error('Request timeout')\<close>, the \<^verbatim>\<open>SyntaxError\<close> of \<^verbatim>\<open>JSON.parse\<close> (with the text
  it was given) and the \<^verbatim>\<open>TypeError\<close> of \<^verbatim>\<open>new URL\<close> (with the text it was given).
\<close>

datatype thrown =
    HttpFailure nat string
  | ErrorEvent string
  | RequestTimeout
  | SyntaxError string
  | InvalidURL string

text \<open>
  How a call of the helper ends. \<open>Resolved\<close> and \<open>Rejected\<close> are the calls of
  \<^verbatim>\<open>resolve\<close> and \<^verbatim>\<open>reject\<close> that settle the promise. \<open>Uncaught\<close> is an exception thrown
  inside a listener (the \<^verbatim>\<open>'response'\<close> callback or an \<^verbatim>\<open>'end'\<close> callback): these run
  from the event loop, outside the promise executor, so nothing turns the exception into
  a rejection; the listener does not settle the promise and the exception is an uncaught
  exception of the process (in a call that follows a redirect the timer of the first
  request may have rejected the promise before the listener throws; the call still ends
  with the uncaught exception). \<open>Pending\<close>: no listener ever runs and the promise is
  never settled.
\<close>

datatype 'a outcome = Resolved 'a | Rejected thrown | Uncaught thrown | Pending

subsection \<open>JSON values, requests and responses\<close>

text \<open>
  JSON values, the numbers as the rationals their texts denote. The helper only hands
  them on; of the values it builds the empty object \<^verbatim>\<open>{}\<close> alone.
\<close>

datatype json =
    JNull | JBool bool | JNumber rat | JString string
  | JArray "json list" | JObject "(string \<times> json) list"

text \<open>
  The options object given to \<^verbatim>\<open>https.request\<close>. The first request of the scripts has
  no \<^verbatim>\<open>port\<close>; the redirect request has \<^verbatim>\<open>redirectUrl.port || 443\<close>, a string or the
  number 443. \<open>httpMethod\<close> is the field \<^verbatim>\<open>method\<close>; \<open>timeout\<close> is in milliseconds, and
  0 sets no timer.
\<close>

datatype portValue = PortNumber nat | PortText string

record requestOptions =
  hostname :: string
  port :: "portValue option"
  path :: string
  httpMethod :: string
  headers :: "(string \<times> string) list"
  timeout :: nat

text \<open>
  The four fields of a \<^verbatim>\<open>URL\<close> object that the helper reads.
\<close>

record URL =
  url_hostname :: string
  url_port :: string
  pathname :: string
  search :: string

text \<open>
  What the peer does with one request: after so many milliseconds of silence the whole
  response arrives (status code, the \<^verbatim>\<open>Location\<close> header if any, the body as the
  Buffers of the \<^verbatim>\<open>'data'\<close> events, each a sequence of bytes), or the connection fails
  after so many milliseconds, or nothing ever arrives.
\<close>

datatype reply =
    Response nat nat "string option" "string list"
  | SocketError nat string
  | Silence

text \<open>
  The event of a request that its listeners see first; \<open>OnNothing\<close> when there is none:
  the peer is silent and no timer is set.
\<close>

datatype event =
    OnResponse nat "string option" "string list"
  | OnError string
  | OnTimeout
  | OnNothing

text \<open>
  The surroundings of the scripts: the built-in \<^verbatim>\<open>JSON.parse\<close> (\<open>None\<close> when it throws),
  \<^verbatim>\<open>JSON.stringify\<close>, the parser of \<^verbatim>\<open>new URL\<close> (\<open>None\<close> when it throws) and the
  remote peers, which answer a request (its options and the payload written).
\<close>

record platform =
  JSON_parse :: "string \<Rightarrow> json option"
  JSON_stringify :: "json \<Rightarrow> string"
  URL_parse :: "string \<Rightarrow> URL option"
  network :: "requestOptions \<Rightarrow> string \<Rightarrow> reply"

text \<open>
  The object the helper resolves with: \<^verbatim>\<open>{statusCode, data}\<close>.
\<close>

record response =
  statusCode :: nat
  data :: json

text \<open>
  A call of the helper: the options of the requests it issued, in sequence, the
  milliseconds until it ended (for a pending call, until its last event) and how it
  ended.
\<close>

record settled =
  sent :: "requestOptions list"
  elapsed :: nat
  outcome :: "response outcome"

text \<open>
  The result of \<^verbatim>\<open>loadConfig\<close>.
\<close>

record config =
  graphName :: string
  apiToken :: string

subsection \<open>Blocks\<close>

text \<open>
  A row of the children query is \<^verbatim>\<open>[?childUid ?childString ?childOrder]\<close>: two strings and
  the integer \<^verbatim>\<open>:block/order\<close>. \<^verbatim>\<open>fetchChildren\<close> turns a row into the object
  \<^verbatim>\<open>{uid, string, order}\<close>; \<^verbatim>\<open>buildBlockTree\<close> adds the field \<^verbatim>\<open>children\<close>.
\<close>

type_synonym row = "string \<times> string \<times> int"

record child =
  uid :: string
  string :: string
  order :: int

datatype block =
  Block (block_uid: string) (block_string: string) (block_order: int)
        (block_children: "block list")

subsection \<open>Dates\<close>

text \<open>
  What \<^verbatim>\<open>getTodayRoamTitle\<close> reads of \<^verbatim>\<open>new Date()\<close>: \<^verbatim>\<open>getMonth()\<close> (0 to 11),
  \<^verbatim>\<open>getDate()\<close> (1 to 31) and \<^verbatim>\<open>getFullYear()\<close>.
\<close>

record date =
  getMonth :: nat
  getDate :: int
  getFullYear :: int

section \<open>The platform\<close>

subsection \<open>Buffers and texts\<close>

text \<open>
  \<^verbatim>\<open>data += chunk\<close> appends \<^verbatim>\<open>chunk.toString()\<close>, the UTF-8 decoding of that one
  Buffer. A text is held as the bytes of its UTF-8 encoding, so the decoder copies every
  well-formed sequence and writes U+FFFD (the bytes EF BF BD) for every ill-formed part,
  in the way of the decoder of the Encoding Standard: \<open>Start\<close> is its state between two
  characters, \<open>Within needed lower upper seen\<close> its state inside a sequence of which
  \<open>needed\<close> bytes are still to come, the next one between \<open>lower\<close> and \<open>upper\<close>. A
  sequence that the end of the Buffer cuts off is ill-formed.
\<close>

definition replacement :: string where
  "replacement = [CHR 0xEF, CHR 0xBF, CHR 0xBD]"

datatype utf8 = Start | Within nat nat nat string

definition startByte :: "char \<Rightarrow> string \<times> utf8" where
  "startByte b =
     (let n = (of_char b :: nat)
      in if n \<le> 0x7F then ([b], Start)
         else if 0xC2 \<le> n \<and> n \<le> 0xDF then ([], Within 1 0x80 0xBF [b])
         else if 0xE0 \<le> n \<and> n \<le> 0xEF then
           ([], Within 2 (if n = 0xE0 then 0xA0 else 0x80) (if n = 0xED then 0x9F else 0xBF) [b])
         else if 0xF0 \<le> n \<and> n \<le> 0xF4 then
           ([], Within 3 (if n = 0xF0 then 0x90 else 0x80) (if n = 0xF4 then 0x8F else 0xBF) [b])
         else (replacement, Start))"

fun nextByte :: "utf8 \<Rightarrow> char \<Rightarrow> string \<times> utf8" where
  "nextByte Start b = startByte b"
| "nextByte (Within needed lower upper seen) b =
     (if lower \<le> (of_char b :: nat) \<and> (of_char b :: nat) \<le> upper then
        (if needed = 1 then (seen @ [b], Start)
         else ([], Within (needed - 1) 0x80 0xBF (seen @ [b])))
      else (case startByte b of (out, st) \<Rightarrow> (replacement @ out, st)))"

fun decode :: "utf8 \<Rightarrow> string \<Rightarrow> string" where
  "decode st [] = (case st of Start \<Rightarrow> [] | Within needed lower upper seen \<Rightarrow> replacement)"
| "decode st (b # bs) = (case nextByte st b of (out, st') \<Rightarrow> out @ decode st' bs)"

definition toString :: "string \<Rightarrow> string" where
  "toString chunk = decode Start chunk"

text \<open>
  The value of \<^verbatim>\<open>data\<close> after the \<^verbatim>\<open>'data'\<close> events of a response:
  \<^verbatim>\<open>let data = ''; res.on('data', (chunk) => { data += chunk; })\<close>.
\<close>

definition accumulate :: "string list \<Rightarrow> string" where
  "accumulate chunks = foldl (\<lambda>data chunk. data @ toString chunk) [] chunks"

subsection \<open>Requests\<close>

text \<open>
  A timer of \<open>limit\<close> milliseconds has not fired after \<open>ms\<close> milliseconds of silence.
  \<^verbatim>\<open>timeout: 0\<close> sets no timer.
\<close>

definition inTime :: "nat \<Rightarrow> nat \<Rightarrow> bool" where
  "inTime limit ms = (limit = 0 \<or> ms < limit)"

text \<open>
  \<^verbatim>\<open>https.request(opts, callback)\<close> followed by \<^verbatim>\<open>write(payload)\<close> and \<^verbatim>\<open>end()\<close>, as far
  as the helper listens to it. The \<^verbatim>\<open>'timeout'\<close> event comes when the socket has been
  idle for \<^verbatim>\<open>opts.timeout\<close> milliseconds. The peers considered are silent until their
  reply arrives whole, so the idle time of a request is the delay of its reply. The
  result is the time that passed and the event.
\<close>

definition https_request :: "platform \<Rightarrow> requestOptions \<Rightarrow> string \<Rightarrow> nat \<times> event" where
  "https_request pf opts payload =
     (case network pf opts payload of
        Response ms sc location chunks \<Rightarrow>
          if inTime (timeout opts) ms then (ms, OnResponse sc location chunks)
          else (timeout opts, OnTimeout)
      | SocketError ms msg \<Rightarrow>
          if inTime (timeout opts) ms then (ms, OnError msg) else (timeout opts, OnTimeout)
      | Silence \<Rightarrow> if timeout opts = 0 then (0, OnNothing) else (timeout opts, OnTimeout))"

text \<open>
  \<^verbatim>\<open>new URL(res.headers.location)\<close>. A missing header is \<^verbatim>\<open>undefined\<close>, which the
  constructor reads as the text \<^verbatim>\<open>undefined\<close>.
\<close>

definition newURL :: "platform \<Rightarrow> string option \<Rightarrow> thrown + URL" where
  "newURL pf location =
     (let input = (case location of None \<Rightarrow> ''undefined'' | Some l \<Rightarrow> l)
      in case URL_parse pf input of None \<Rightarrow> Inl (InvalidURL input) | Some u \<Rightarrow> Inr u)"

text \<open>
  The text of a number in a template literal or a header, for integers:
  \<^verbatim>\<open>`${day}`\<close>, \<^verbatim>\<open>`${year}`\<close>, \<^verbatim>\<open>Buffer.byteLength(payload)\<close>.
\<close>

function decimal :: "nat \<Rightarrow> string" where
  "decimal n = (if n < 10 then [''0123456789'' ! n]
                else decimal (n div 10) @ [''0123456789'' ! (n mod 10)])"
  by pat_completeness auto
termination
  by (relation "measure id") auto

declare decimal.simps [simp del]

definition numberToString :: "int \<Rightarrow> string" where
  "numberToString k = (if k < 0 then CHR ''-'' # decimal (nat (- k)) else decimal (nat k))"

text \<open>
  The remainder operator \<^verbatim>\<open>%\<close> on integers: the sign is that of the dividend.
\<close>

definition jsRemainder :: "int \<Rightarrow> int \<Rightarrow> int" where
  "jsRemainder a b = sgn a * (\<bar>a\<bar> mod \<bar>b\<bar>)"

section \<open>The HTTPS helper\<close>

text \<open>
  The default parameter \<^verbatim>\<open>timeout = 30000\<close>.
\<close>

definition timeoutParam :: "nat option \<Rightarrow> nat" where
  "timeoutParam timeoutArg = (case timeoutArg of None \<Rightarrow> 30000 | Some ms \<Rightarrow> ms)"

text \<open>
  The \<^verbatim>\<open>'end'\<close> listener, the same text for the first response and for the response to
  the redirect request: \<^verbatim>\<open>resolve({statusCode, data: data ? JSON.parse(data) : {}})\<close> when
  the status code is 200, \<^verbatim>\<open>reject({statusCode, message: data})\<close> otherwise. \<open>body\<close> is
  the accumulated \<^verbatim>\<open>data\<close>. An exception of \<^verbatim>\<open>JSON.parse\<close> leaves the listener.
\<close>

definition onEnd :: "platform \<Rightarrow> nat \<Rightarrow> string \<Rightarrow> response outcome" where
  "onEnd pf sc body =
     (if sc = 200 then
        (if body \<noteq> [] then
           (case JSON_parse pf body of
              None \<Rightarrow> Uncaught (SyntaxError body)
            | Some v \<Rightarrow> Resolved \<lparr>statusCode = sc, data = v\<rparr>)
         else Resolved \<lparr>statusCode = sc, data = JObject []\<rparr>)
      else Rejected (HttpFailure sc body))"

text \<open>
  The object \<^verbatim>\<open>redirectOpts\<close> of \<^verbatim>\<open>makeHttpsRequest\<close>.
\<close>

definition redirectOpts :: "URL \<Rightarrow> requestOptions \<Rightarrow> nat \<Rightarrow> requestOptions" where
  "redirectOpts redirectUrl opts timeoutMs =
     \<lparr>hostname = url_hostname redirectUrl,
      port = Some (if url_port redirectUrl \<noteq> [] then PortText (url_port redirectUrl)
                   else PortNumber 443),
      path = pathname redirectUrl @ search redirectUrl,
      httpMethod = httpMethod opts,
      headers = headers opts,
      timeout = timeoutMs\<rparr>"

text \<open>
  What happens while the redirect request is under way. The response of the first
  request is never read, so its connection stays open and idle and the \<^verbatim>\<open>'timeout'\<close>
  listener of the first request (line 151) stays armed: \<open>firstTimeout\<close> milliseconds after the redirect
  arrived it rejects the promise, unless a listener of the redirect request has settled
  it before. \<open>second\<close> is the event of the redirect request and its time. The \<^verbatim>\<open>'end'\<close>
  listener of the redirect response runs whenever that response arrives, also after the
  first timer: \<^verbatim>\<open>resolve\<close> and \<^verbatim>\<open>reject\<close> then do nothing, but an exception of
  \<^verbatim>\<open>JSON.parse\<close> is thrown all the same, and the call ends with it.
\<close>

definition redirectHop :: "platform \<Rightarrow> nat \<Rightarrow> nat \<times> event \<Rightarrow> nat \<times> response outcome" where
  "redirectHop pf firstTimeout second =
     (case second of
        (t2, OnResponse sc2 location2 chunks2) \<Rightarrow>
          (case onEnd pf sc2 (accumulate chunks2) of
             Uncaught err \<Rightarrow> (t2, Uncaught err)
           | settles \<Rightarrow>
               if inTime firstTimeout t2 then (t2, settles)
               else (firstTimeout, Rejected RequestTimeout))
      | (t2, OnError msg) \<Rightarrow>
          if inTime firstTimeout t2 then (t2, Rejected (ErrorEvent msg))
          else (firstTimeout, Rejected RequestTimeout)
      | (t2, OnTimeout) \<Rightarrow>
          (if inTime firstTimeout t2 then t2 else firstTimeout, Rejected RequestTimeout)
      | (t2, OnNothing) \<Rightarrow>
          if firstTimeout = 0 then (t2, Pending) else (firstTimeout, Rejected RequestTimeout))"

text \<open>
  \<^verbatim>\<open>makeHttpsRequest(requestOptions, payload, timeout = 30000)\<close> of \<^verbatim>\<open>read-content.js\<close>
  (lines 104 to 158; \<^verbatim>\<open>write-content.js\<close> has the same text). The first request is made
  with \<^verbatim>\<open>requestOptions\<close>. A response with status 301, 302 or 308 is not read: one
  request is made to the \<^verbatim>\<open>Location\<close> and its response is classified by the
  \<^verbatim>\<open>'end'\<close> listener, whatever its status.
\<close>

definition makeHttpsRequest ::
  "platform \<Rightarrow> requestOptions \<Rightarrow> string \<Rightarrow> nat option \<Rightarrow> settled" where
  "makeHttpsRequest pf requestOptions payload timeoutArg =
     (let timeoutMs = timeoutParam timeoutArg;
          opts = requestOptions
      in case https_request pf opts payload of
           (t1, OnNothing) \<Rightarrow> \<lparr>sent = [opts], elapsed = t1, outcome = Pending\<rparr>
         | (t1, OnError msg) \<Rightarrow>
             \<lparr>sent = [opts], elapsed = t1, outcome = Rejected (ErrorEvent msg)\<rparr>
         | (t1, OnTimeout) \<Rightarrow>
             \<lparr>sent = [opts], elapsed = t1, outcome = Rejected RequestTimeout\<rparr>
         | (t1, OnResponse sc location chunks) \<Rightarrow>
             if sc = 301 \<or> sc = 302 \<or> sc = 308 then
               (case newURL pf location of
                  Inl err \<Rightarrow> \<lparr>sent = [opts], elapsed = t1, outcome = Uncaught err\<rparr>
                | Inr redirectUrl \<Rightarrow>
                    (case redirectHop pf (timeout opts)
                            (https_request pf (redirectOpts redirectUrl opts timeoutMs) payload) of
                       (t2, ends) \<Rightarrow>
                         \<lparr>sent = [opts, redirectOpts redirectUrl opts timeoutMs],
                          elapsed = t1 + t2, outcome = ends\<rparr>))
             else \<lparr>sent = [opts], elapsed = t1, outcome = onEnd pf sc (accumulate chunks)\<rparr>)"

text \<open>
  \<^verbatim>\<open>makeRoamRequest(config, data, timeout = 30000)\<close> of \<^verbatim>\<open>create-pages.js\<close> (lines 194
  to 295), which builds its options and the options of the redirect request itself.
\<close>

definition makeRoamRequest :: "platform \<Rightarrow> config \<Rightarrow> json \<Rightarrow> nat option \<Rightarrow> settled" where
  "makeRoamRequest pf config body timeoutArg =
     (let timeoutMs = timeoutParam timeoutArg;
          payload = JSON_stringify pf body;
          options =
            \<lparr>hostname = ''api.roamresearch.com'',
             port = None,
             path = ''/api/graph/'' @ graphName config @ ''/write'',
             httpMethod = ''POST'',
             headers =
               [(''Content-Type'', ''application/json''),
                (''Content-Length'', numberToString (int (length payload))),
                (''Authorization'', ''Bearer '' @ apiToken config),
                (''Accept'', ''application/json'')],
             timeout = timeoutMs\<rparr>
      in case https_request pf options payload of
           (t1, OnNothing) \<Rightarrow> \<lparr>sent = [options], elapsed = t1, outcome = Pending\<rparr>
         | (t1, OnError msg) \<Rightarrow>
             \<lparr>sent = [options], elapsed = t1, outcome = Rejected (ErrorEvent msg)\<rparr>
         | (t1, OnTimeout) \<Rightarrow>
             \<lparr>sent = [options], elapsed = t1, outcome = Rejected RequestTimeout\<rparr>
         | (t1, OnResponse sc location chunks) \<Rightarrow>
             if sc = 301 \<or> sc = 302 \<or> sc = 308 then
               (case newURL pf location of
                  Inl err \<Rightarrow> \<lparr>sent = [options], elapsed = t1, outcome = Uncaught err\<rparr>
                | Inr redirectUrl \<Rightarrow>
                    let redirectOptions =
                          \<lparr>hostname = url_hostname redirectUrl,
                           port = Some (if url_port redirectUrl \<noteq> []
                                        then PortText (url_port redirectUrl)
                                        else PortNumber 443),
                           path = pathname redirectUrl @ search redirectUrl,
                           httpMethod = ''POST'',
                           headers =
                             [(''Content-Type'', ''application/json''),
                              (''Content-Length'', numberToString (int (length payload))),
                              (''Authorization'', ''Bearer '' @ apiToken config),
                              (''Accept'', ''application/json'')],
                           timeout = timeoutMs\<rparr>
                    in (case redirectHop pf (timeout options)
                               (https_request pf redirectOptions payload) of
                          (t2, ends) \<Rightarrow>
                            \<lparr>sent = [options, redirectOptions], elapsed = t1 + t2,
                             outcome = ends\<rparr>))
             else \<lparr>sent = [options], elapsed = t1,
                     outcome = onEnd pf sc (accumulate chunks)\<rparr>)"

text \<open>
  The object \<^verbatim>\<open>options\<close> of \<^verbatim>\<open>makeRoamRequest\<close>, by name.
\<close>

definition writeOptions :: "config \<Rightarrow> string \<Rightarrow> nat \<Rightarrow> requestOptions" where
  "writeOptions config payload timeoutMs =
     \<lparr>hostname = ''api.roamresearch.com'',
      port = None,
      path = ''/api/graph/'' @ graphName config @ ''/write'',
      httpMethod = ''POST'',
      headers =
        [(''Content-Type'', ''application/json''),
         (''Content-Length'', numberToString (int (length payload))),
         (''Authorization'', ''Bearer '' @ apiToken config),
         (''Accept'', ''application/json'')],
      timeout = timeoutMs\<rparr>"

section \<open>The block tree reader\<close>

text \<open>
  \<^verbatim>\<open>fetchChildren(config, parentUid)\<close> awaits \<^verbatim>\<open>runQuery(config, query, [parentUid])\<close>, maps
  the rows to objects and sorts them with the comparator \<^verbatim>\<open>a.order - b.order\<close>. The
  parameter \<open>runQuery\<close> is what that await gives for each parent uid: \<open>Inr\<close> the rows,
  or \<open>Inl\<close> the value thrown (a rejection of the helper or an uncaught exception: either
  way the caller gets no rows). \<^verbatim>\<open>Array.prototype.sort\<close> is stable, and so is
  \<^const>\<open>sort_key\<close>; on integers the sign of \<^verbatim>\<open>a.order - b.order\<close> is the comparison of
  the two orders.
\<close>

definition fetchChildren :: "(string \<Rightarrow> 'e + row list) \<Rightarrow> string \<Rightarrow> 'e + child list" where
  "fetchChildren runQuery parentUid =
     (case runQuery parentUid of
        Inl err \<Rightarrow> Inl err
      | Inr result \<Rightarrow>
          Inr (sort_key order
                 (map (\<lambda>(u, s, ord). \<lparr>uid = u, string = s, order = ord\<rparr>) result)))"

text \<open>
  The loop \<^verbatim>\<open>for (const child of children) { ... blocks.push({...}) }\<close> of
  \<^verbatim>\<open>buildBlockTree\<close>. \<open>sub child\<close> is the awaited recursive call for that child; a
  value it throws leaves the loop and the function. Every run is paired with the parent
  uids that were fetched, in the sequence of the requests.
\<close>

fun forOf :: "(child \<Rightarrow> string list \<times> ('e + block list)) \<Rightarrow> child list \<Rightarrow> block list
                \<Rightarrow> string list \<times> ('e + block list)" where
  "forOf sub [] blocks = ([], Inr blocks)"
| "forOf sub (child # rest) blocks =
     (case sub child of
        (fetched, Inl err) \<Rightarrow> (fetched, Inl err)
      | (fetched, Inr subChildren) \<Rightarrow>
          (case forOf sub rest
                  (blocks @ [Block (uid child) (string child) (order child) subChildren]) of
             (fetched', res) \<Rightarrow> (fetched @ fetched', res)))"

lemma forOf_cong [fundef_cong]:
  assumes "cs = cs'" and "bs = bs'" and "\<And>c. c \<in> set cs' \<Longrightarrow> f c = g c"
  shows "forOf f cs bs = forOf g cs' bs'"
  using assms(3) unfolding assms(1,2)
  by (induction cs' arbitrary: bs') (auto split: prod.splits sum.splits)

text \<open>
  \<^verbatim>\<open>buildBlockTree(config, parentUid, depth = 0, maxDepth = 10)\<close> (lines 219 to 236), with
  the call \<^verbatim>\<open>fetchChildren(config, \<cdot>)\<close> as the parameter \<open>fetch\<close>. The recursion ends
  because \<open>maxDepth - depth\<close> decreases.
\<close>

function buildBlockTreeWith ::
  "(string \<Rightarrow> 'e + child list) \<Rightarrow> string \<Rightarrow> int \<Rightarrow> int \<Rightarrow> string list \<times> ('e + block list)" where
  "buildBlockTreeWith fetch parentUid depth maxDepth =
     (if depth \<ge> maxDepth then ([], Inr [])
      else
        (case fetch parentUid of
           Inl err \<Rightarrow> ([parentUid], Inl err)
         | Inr children \<Rightarrow>
             (case forOf (\<lambda>child. buildBlockTreeWith fetch (uid child) (depth + 1) maxDepth)
                     children [] of
                (fetched, res) \<Rightarrow> (parentUid # fetched, res))))"
  by pat_completeness auto
termination
  by (relation "measure (\<lambda>(fetch, parentUid, depth, maxDepth). nat (maxDepth - depth))") auto

declare buildBlockTreeWith.simps [simp del]

text \<open>
  The function as the script has it: the fetch is \<^const>\<open>fetchChildren\<close>.
\<close>

definition buildBlockTree ::
  "(string \<Rightarrow> 'e + row list) \<Rightarrow> string \<Rightarrow> int \<Rightarrow> int \<Rightarrow> string list \<times> ('e + block list)" where
  "buildBlockTree runQuery parentUid depth maxDepth =
     buildBlockTreeWith (fetchChildren runQuery) parentUid depth maxDepth"

section \<open>The daily note title\<close>

text \<open>
  \<^verbatim>\<open>getOrdinalSuffix(day)\<close> of \<^verbatim>\<open>write-content.js\<close> (lines 126 to 134).
\<close>

definition getOrdinalSuffix :: "int \<Rightarrow> string" where
  "getOrdinalSuffix day =
     (if day \<ge> 11 \<and> day \<le> 13 then ''th''
      else if jsRemainder day 10 = 1 then ''st''
      else if jsRemainder day 10 = 2 then ''nd''
      else if jsRemainder day 10 = 3 then ''rd''
      else ''th'')"

definition months :: "string list" where
  "months =
     [''January'', ''February'', ''March'', ''April'', ''May'', ''June'',
      ''July'', ''August'', ''September'', ''October'', ''November'', ''December'']"

text \<open>
  \<^verbatim>\<open>getTodayRoamTitle()\<close> (lines 110 to 123); \<open>now\<close> is the value of \<^verbatim>\<open>new Date()\<close>. An
  index outside the array of months gives \<^verbatim>\<open>undefined\<close>, printed as that word.
\<close>

definition getTodayRoamTitle :: "date \<Rightarrow> string" where
  "getTodayRoamTitle now =
     (let month = (if getMonth now < length months then months ! getMonth now
                   else ''undefined'');
          day = getDate now;
          year = getFullYear now;
          suffix = getOrdinalSuffix day
      in month @ '' '' @ numberToString day @ suffix @ '', '' @ numberToString year)"

section \<open>Properties of a block tree\<close>

text \<open>
  Every sequence of siblings ascends by \<open>order\<close>, at every level.
\<close>

fun sortedBlock :: "block \<Rightarrow> bool" where
  "sortedBlock (Block u s ord cs) = (sorted (map block_order cs) \<and> list_all sortedBlock cs)"

definition sortedLevels :: "block list \<Rightarrow> bool" where
  "sortedLevels bs = (sorted (map block_order bs) \<and> list_all sortedBlock bs)"

text \<open>
  The blocks \<open>k\<close> levels below the returned sequence: \<open>nodesAt 0\<close> are the children of the
  root (depth 1), \<open>nodesAt 1\<close> their children (depth 2), and so on.
\<close>

fun nodesAt :: "nat \<Rightarrow> block list \<Rightarrow> block list" where
  "nodesAt 0 bs = bs"
| "nodesAt (Suc k) bs = concat (map (\<lambda>b. nodesAt k (block_children b)) bs)"

text \<open>
  \<open>b\<close> is the block the loop pushes for \<open>c\<close> when the recursive call succeeds.
\<close>

definition assembled ::
  "(child \<Rightarrow> string list \<times> ('e + block list)) \<Rightarrow> child \<Rightarrow> block \<Rightarrow> bool" where
  "assembled sub c b =
     (\<exists>tr s. sub c = (tr, Inr s) \<and> b = Block (uid c) (string c) (order c) s)"

text \<open>
  The parents within the depth bound, in the sequence of a depth-first walk that no
  failure stops: a parent, then what lies below its first child, then below its second,
  and so on. These are the parents whose children the specification has fetched; a
  parent whose fetch fails has none below it.
\<close>

function traversal :: "(string \<Rightarrow> 'e + child list) \<Rightarrow> string \<Rightarrow> int \<Rightarrow> int \<Rightarrow> string list" where
  "traversal fetch parentUid depth maxDepth =
     (if depth \<ge> maxDepth then []
      else parentUid #
        (case fetch parentUid of
           Inl err \<Rightarrow> []
         | Inr children \<Rightarrow>
             concat (map (\<lambda>child. traversal fetch (uid child) (depth + 1) maxDepth) children)))"
  by pat_completeness auto
termination
  by (relation "measure (\<lambda>(fetch, parentUid, depth, maxDepth). nat (maxDepth - depth))") auto

declare traversal.simps [simp del]

text \<open>
  The tree of the specification: for every parent within the depth bound all the
  children its fetch returns, in that sequence, each with its whole subtree.
\<close>

function wholeTree :: "(string \<Rightarrow> 'e + child list) \<Rightarrow> string \<Rightarrow> int \<Rightarrow> int \<Rightarrow> block list" where
  "wholeTree fetch parentUid depth maxDepth =
     (if depth \<ge> maxDepth then []
      else
        (case fetch parentUid of
           Inl err \<Rightarrow> []
         | Inr children \<Rightarrow>
             map (\<lambda>child. Block (uid child) (string child) (order child)
                            (wholeTree fetch (uid child) (depth + 1) maxDepth))
               children))"
  by pat_completeness auto
termination
  by (relation "measure (\<lambda>(fetch, parentUid, depth, maxDepth). nat (maxDepth - depth))") auto

declare wholeTree.simps [simp del]

text \<open>
  A run follows the walk \<open>planned\<close>: when no fetch on it fails, exactly these parents
  were fetched and the result is \<open>whole\<close>; otherwise the parents up to the first one whose
  fetch fails were fetched, and what that fetch threw is thrown.
\<close>

definition follows ::
  "(string \<Rightarrow> 'e + child list) \<Rightarrow> string list \<Rightarrow> block list \<Rightarrow> string list \<times> ('e + block list) \<Rightarrow> bool" where
  "follows fetch planned whole run =
     (if list_all (\<lambda>v. \<not> isl (fetch v)) planned then run = (planned, Inr whole)
      else run =
        (takeWhile (\<lambda>v. \<not> isl (fetch v)) planned @
           [hd (dropWhile (\<lambda>v. \<not> isl (fetch v)) planned)],
         Inl (projl (fetch (hd (dropWhile (\<lambda>v. \<not> isl (fetch v)) planned))))))"

section \<open>Sample graphs and sample peers\<close>

text \<open>
  A page whose rows arrive in descending order at both levels, as the remote service
  may return them.
\<close>

definition samplePage :: "string \<Rightarrow> thrown + row list" where
  "samplePage parentUid =
     (if parentUid = ''page'' then Inr [(''b'', ''second'', 1), (''a'', ''first'', 0)]
      else if parentUid = ''a'' then Inr [(''a2'', ''second of a'', 1), (''a1'', ''first of a'', 0)]
      else Inr [])"

text \<open>
  A fetch that hands the children over in descending order.
\<close>

definition descendingFetch :: "string \<Rightarrow> thrown + child list" where
  "descendingFetch parentUid =
     (if parentUid = ''page''
      then Inr [\<lparr>uid = ''b'', string = ''second'', order = 1\<rparr>,
                \<lparr>uid = ''a'', string = ''first'', order = 0\<rparr>]
      else Inr [])"

text \<open>
  A chain without end: every block has one child.
\<close>

definition chainFetch :: "string \<Rightarrow> thrown + child list" where
  "chainFetch parentUid = Inr [\<lparr>uid = CHR ''x'' # parentUid, string = parentUid, order = 0\<rparr>]"

text \<open>
  The root's children are fetched, the fetch for the grandchild \<open>a1\<close> fails; the child
  \<open>b\<close> comes after it in the walk.
\<close>

definition brokenFetch :: "string \<Rightarrow> thrown + child list" where
  "brokenFetch parentUid =
     (if parentUid = ''page''
      then Inr [\<lparr>uid = ''a'', string = ''first'', order = 0\<rparr>,
                \<lparr>uid = ''b'', string = ''second'', order = 1\<rparr>]
      else if parentUid = ''a'' then Inr [\<lparr>uid = ''a1'', string = ''first of a'', order = 0\<rparr>]
      else if parentUid = ''a1'' then Inl (HttpFailure 503 ''Service Unavailable'')
      else Inr [])"

text \<open>
  Stand-ins for the built-ins on the few texts the samples use: \<^verbatim>\<open>JSON.parse\<close> accepts
  the two JSON texts below and throws on the others used here (\<^verbatim>\<open>not json\<close>),
  \<^verbatim>\<open>new URL\<close> accepts the one absolute URL.
\<close>

definition sampleParse :: "string \<Rightarrow> json option" where
  "sampleParse text =
     (if text = ''{\"result\":[]}'' then Some (JObject [(''result'', JArray [])])
      else if text = ''{}'' then Some (JObject [])
      else None)"

definition sampleStringify :: "json \<Rightarrow> string" where
  "sampleStringify v = (if v = JObject [] then ''{}'' else ''null'')"

definition sampleURL :: "string \<Rightarrow> URL option" where
  "sampleURL input =
     (if input = ''https://peer.roamresearch.com/api/graph/notes/q''
      then Some \<lparr>url_hostname = ''peer.roamresearch.com'', url_port = [],
                  pathname = ''/api/graph/notes/q'', search = []\<rparr>
      else None)"

definition peerURL :: URL where
  "peerURL = \<lparr>url_hostname = ''peer.roamresearch.com'', url_port = [],
               pathname = ''/api/graph/notes/q'', search = []\<rparr>"

text \<open>
  Two peers: the API host answers with \<open>first\<close>, any other host with \<open>second\<close>.
\<close>

definition twoHosts :: "reply \<Rightarrow> reply \<Rightarrow> requestOptions \<Rightarrow> string \<Rightarrow> reply" where
  "twoHosts first second opts payload =
     (if hostname opts = ''api.roamresearch.com'' then first else second)"

definition samplePlatform :: "reply \<Rightarrow> reply \<Rightarrow> platform" where
  "samplePlatform first second =
     \<lparr>JSON_parse = sampleParse, JSON_stringify = sampleStringify,
      URL_parse = sampleURL, network = twoHosts first second\<rparr>"

text \<open>
  The options \<^verbatim>\<open>runQuery\<close> builds for the graph \<^verbatim>\<open>notes\<close> and a payload of two bytes.
\<close>

definition queryOptions :: requestOptions where
  "queryOptions =
     \<lparr>hostname = ''api.roamresearch.com'', port = None,
      path = ''/api/graph/notes/q'', httpMethod = ''POST'',
      headers = [(''Content-Type'', ''application/json''), (''Content-Length'', ''2''),
                 (''Authorization'', ''Bearer roam-graph-token-x''),
                 (''Accept'', ''application/json'')],
      timeout = 30000\<rparr>"

text \<open>
  A redirect to the other host, arriving after \<open>ms\<close> milliseconds.
\<close>

definition movedTo :: "nat \<Rightarrow> reply" where
  "movedTo ms =
     Response ms 301 (Some ''https://peer.roamresearch.com/api/graph/notes/q'') []"

section \<open>Decoding\<close>

lemma accumulate_concat: "accumulate chunks = concat (map toString chunks)"
proof -
  have "foldl (\<lambda>data chunk. data @ toString chunk) acc chunks = acc @ concat (map toString chunks)"
    for acc
    by (induction chunks arbitrary: acc) simp_all
  then show ?thesis by (simp add: accumulate_def)
qed

lemma decode_ascii:
  "list_all (\<lambda>b. (of_char b :: nat) \<le> 0x7F) s \<Longrightarrow> decode Start s = s"
  by (induction s) (simp_all add: startByte_def)

lemma toString_ascii:
  "list_all (\<lambda>b. (of_char b :: nat) \<le> 0x7F) s \<Longrightarrow> toString s = s"
  by (simp add: toString_def decode_ascii)

lemma toString_Nil [simp]: "toString [] = []"
  by (simp add: toString_def)

lemma accumulate_empty: "concat chunks = [] \<Longrightarrow> accumulate chunks = []"
  by (induction chunks) (simp_all add: accumulate_concat)

text \<open>
  The two bytes of \<^verbatim>\<open>U+00E9\<close>, decoded one by one and together.
\<close>

lemma split_character:
  "toString [CHR 0xC3] = [CHR 0xEF, CHR 0xBF, CHR 0xBD]"
  "toString [CHR 0xA9] = [CHR 0xEF, CHR 0xBF, CHR 0xBD]"
  "toString [CHR 0xC3, CHR 0xA9] = [CHR 0xC3, CHR 0xA9]"
  by (simp_all add: toString_def startByte_def replacement_def)

text \<open>
  More Buffers: the euro sign and a character of four bytes, whole; a sequence that the
  end of the Buffer or another byte cuts off; an overlong form, a surrogate, a code point
  above \<^verbatim>\<open>U+10FFFF\<close> and a byte that starts nothing, each ill-formed byte replaced.
\<close>

lemma decode_samples:
  "toString [CHR 0xE2, CHR 0x82, CHR 0xAC] = [CHR 0xE2, CHR 0x82, CHR 0xAC]"
  "toString [CHR 0xF0, CHR 0x9F, CHR 0x98, CHR 0x80] = [CHR 0xF0, CHR 0x9F, CHR 0x98, CHR 0x80]"
  "toString [CHR 0xE2, CHR 0x82] = replacement"
  "toString [CHR 0xE2, CHR 0x41] = replacement @ ''A''"
  "toString [CHR 0xC0, CHR 0x80] = replacement @ replacement"
  "toString [CHR 0xE0, CHR 0x80, CHR 0x80] = replacement @ replacement @ replacement"
  "toString [CHR 0xED, CHR 0xA0, CHR 0x80] = replacement @ replacement @ replacement"
  "toString [CHR 0xF4, CHR 0x90, CHR 0x80, CHR 0x80] =
     replacement @ replacement @ replacement @ replacement"
  "toString [CHR 0xF5] = replacement"
  "toString replacement = replacement"
  by (simp_all add: toString_def startByte_def replacement_def)

section \<open>The helper, case by case\<close>

text \<open>
  \<^verbatim>\<open>makeRoamRequest\<close> is \<^verbatim>\<open>makeHttpsRequest\<close> on the options and the payload it builds.
\<close>

lemma makeRoamRequest_makeHttpsRequest:
  "makeRoamRequest pf config body timeoutArg =
     makeHttpsRequest pf
       (writeOptions config (JSON_stringify pf body) (timeoutParam timeoutArg))
       (JSON_stringify pf body) timeoutArg"
  by (simp add: makeRoamRequest_def makeHttpsRequest_def redirectOpts_def writeOptions_def Let_def
           cong: prod.case_cong event.case_cong sum.case_cong if_cong)

lemma https_request_Response:
  "network pf opts payload = Response ms sc location chunks \<Longrightarrow> inTime (timeout opts) ms \<Longrightarrow>
   https_request pf opts payload = (ms, OnResponse sc location chunks)"
  by (simp add: https_request_def)

lemma newURL_Inr:
  "URL_parse pf (case location of None \<Rightarrow> ''undefined'' | Some l \<Rightarrow> l) = Some redirectUrl \<Longrightarrow>
   newURL pf location = Inr redirectUrl"
  by (simp add: newURL_def)

lemma redirectHop_in_time:
  "inTime firstTimeout t2 \<Longrightarrow>
   redirectHop pf firstTimeout (t2, OnResponse sc2 location2 chunks2) =
     (t2, onEnd pf sc2 (accumulate chunks2))"
  by (simp add: redirectHop_def split: outcome.splits)

lemma redirectHop_Uncaught:
  "onEnd pf sc2 (accumulate chunks2) = Uncaught err \<Longrightarrow>
   redirectHop pf firstTimeout (t2, OnResponse sc2 location2 chunks2) = (t2, Uncaught err)"
  by (simp add: redirectHop_def)

lemma makeHttpsRequest_direct:
  assumes "network pf opts payload = Response ms sc location chunks"
    and "inTime (timeout opts) ms"
    and "sc \<noteq> 301" and "sc \<noteq> 302" and "sc \<noteq> 308"
  shows "makeHttpsRequest pf opts payload timeoutArg =
           \<lparr>sent = [opts], elapsed = ms, outcome = onEnd pf sc (accumulate chunks)\<rparr>"
  using assms by (simp add: makeHttpsRequest_def https_request_Response)

lemma makeHttpsRequest_hop:
  assumes "network pf opts payload = Response ms sc location chunks"
    and "inTime (timeout opts) ms"
    and "sc = 301 \<or> sc = 302 \<or> sc = 308"
    and "newURL pf location = Inr redirectUrl"
    and "network pf (redirectOpts redirectUrl opts (timeoutParam timeoutArg)) payload =
           Response ms2 sc2 location2 chunks2"
    and "inTime (timeoutParam timeoutArg) ms2"
  shows "makeHttpsRequest pf opts payload timeoutArg =
           \<lparr>sent = [opts, redirectOpts redirectUrl opts (timeoutParam timeoutArg)],
            elapsed = ms + fst (redirectHop pf (timeout opts)
                                  (ms2, OnResponse sc2 location2 chunks2)),
            outcome = snd (redirectHop pf (timeout opts)
                             (ms2, OnResponse sc2 location2 chunks2))\<rparr>"
proof -
  have t: "timeout (redirectOpts redirectUrl opts (timeoutParam timeoutArg)) = timeoutParam timeoutArg"
    by (simp add: redirectOpts_def)
  have second: "https_request pf (redirectOpts redirectUrl opts (timeoutParam timeoutArg)) payload =
      (ms2, OnResponse sc2 location2 chunks2)"
    using assms(5,6) t by (simp add: https_request_Response)
  show ?thesis
    using assms(3,4) second https_request_Response[OF assms(1,2)]
    by (simp add: makeHttpsRequest_def split: prod.splits)
qed

lemma makeHttpsRequest_redirected:
  assumes "network pf opts payload = Response ms sc location chunks"
    and "inTime (timeout opts) ms"
    and "sc = 301 \<or> sc = 302 \<or> sc = 308"
    and "newURL pf location = Inr redirectUrl"
    and "network pf (redirectOpts redirectUrl opts (timeoutParam timeoutArg)) payload =
           Response ms2 sc2 location2 chunks2"
    and "inTime (timeoutParam timeoutArg) ms2"
    and "inTime (timeout opts) ms2"
  shows "makeHttpsRequest pf opts payload timeoutArg =
           \<lparr>sent = [opts, redirectOpts redirectUrl opts (timeoutParam timeoutArg)],
            elapsed = ms + ms2, outcome = onEnd pf sc2 (accumulate chunks2)\<rparr>"
  using makeHttpsRequest_hop[OF assms(1-6)] redirectHop_in_time[OF assms(7)] by simp

lemma makeHttpsRequest_sent:
  assumes "network pf opts payload = Response ms sc location chunks"
    and "inTime (timeout opts) ms"
    and "sc = 301 \<or> sc = 302 \<or> sc = 308"
    and "newURL pf location = Inr redirectUrl"
  shows "sent (makeHttpsRequest pf opts payload timeoutArg) =
           [opts, redirectOpts redirectUrl opts (timeoutParam timeoutArg)]"
  using assms(3,4) https_request_Response[OF assms(1,2)]
  by (simp add: makeHttpsRequest_def Let_def split: prod.splits)

lemma newURL_JSON_parse [simp]: "newURL (pf\<lparr>JSON_parse := parse\<rparr>) location = newURL pf location"
  by (simp add: newURL_def)

lemma sample_redirect:
  "newURL (samplePlatform first second)
      (Some ''https://peer.roamresearch.com/api/graph/notes/q'') = Inr peerURL"
  by (simp add: newURL_def samplePlatform_def sampleURL_def peerURL_def)

lemma sample_first:
  "network (samplePlatform first second) queryOptions payload = first"
  by (simp add: samplePlatform_def twoHosts_def queryOptions_def)

lemma sample_second:
  "network (samplePlatform first second) (redirectOpts peerURL queryOptions ms) payload = second"
  by (simp add: samplePlatform_def twoHosts_def redirectOpts_def peerURL_def)

text \<open>
  Two runs on the timers. With a timeout of 500 ms on the first request and 3000 ms for
  the redirect request, a redirect after 100 ms and a reply to the redirect request after
  1500 ms: the timer of the first request rejects the promise 600 ms after the call.
  With a timeout of 0 no timer is set and a reply after 322 ms is accepted.
\<close>

lemma first_timer_still_armed:
  "makeHttpsRequest
     (samplePlatform (movedTo 100) (Response 1500 200 None [''{}'']))
     (queryOptions\<lparr>timeout := 500\<rparr>) ''{}'' (Some 3000) =
   \<lparr>sent = [queryOptions\<lparr>timeout := 500\<rparr>,
            redirectOpts peerURL (queryOptions\<lparr>timeout := 500\<rparr>) 3000],
    elapsed = 600, outcome = Rejected RequestTimeout\<rparr>"
  by (simp add: makeHttpsRequest_def https_request_def redirectHop_def onEnd_def inTime_def
        timeoutParam_def samplePlatform_def twoHosts_def queryOptions_def movedTo_def
        newURL_def sampleURL_def peerURL_def redirectOpts_def accumulate_concat toString_ascii
        sampleParse_def)

lemma no_timer_at_zero:
  "makeHttpsRequest
     (samplePlatform (Response 322 200 None [''{}'']) Silence)
     (queryOptions\<lparr>timeout := 0\<rparr>) ''{}'' (Some 0) =
   \<lparr>sent = [queryOptions\<lparr>timeout := 0\<rparr>], elapsed = 322,
    outcome = Resolved \<lparr>statusCode = 200, data = JObject []\<rparr>\<rparr>"
  by (simp add: makeHttpsRequest_def https_request_def onEnd_def inTime_def
        timeoutParam_def samplePlatform_def twoHosts_def queryOptions_def
        accumulate_concat toString_ascii sampleParse_def)

text \<open>
  A reply that comes at the very millisecond the timer fires is late.
\<close>

lemma inTime_samples:
  "inTime 0 5" "inTime 30000 29999" "\<not> inTime 30000 30000" "\<not> inTime 30000 30001"
  by (simp_all add: inTime_def)

text \<open>
  The other ways a first request ends: a silent peer (with a timer, and with none: the
  promise stays pending), a socket error before and after the timer, a reply at the
  moment of the timer, and a redirect without a \<^verbatim>\<open>Location\<close>, on which \<^verbatim>\<open>new URL\<close> throws
  inside the response callback.
\<close>

lemma first_request_endings:
  "makeHttpsRequest (samplePlatform Silence Silence) queryOptions ''{}'' None =
     \<lparr>sent = [queryOptions], elapsed = 30000, outcome = Rejected RequestTimeout\<rparr>"
  "makeHttpsRequest (samplePlatform Silence Silence) (queryOptions\<lparr>timeout := 0\<rparr>) ''{}'' None =
     \<lparr>sent = [queryOptions\<lparr>timeout := 0\<rparr>], elapsed = 0, outcome = Pending\<rparr>"
  "makeHttpsRequest (samplePlatform (SocketError 50 ''ECONNRESET'') Silence) queryOptions ''{}'' None =
     \<lparr>sent = [queryOptions], elapsed = 50, outcome = Rejected (ErrorEvent ''ECONNRESET'')\<rparr>"
  "makeHttpsRequest (samplePlatform (SocketError 40000 ''ECONNRESET'') Silence) queryOptions ''{}'' None =
     \<lparr>sent = [queryOptions], elapsed = 30000, outcome = Rejected RequestTimeout\<rparr>"
  "makeHttpsRequest (samplePlatform (Response 30000 200 None [''{}'']) Silence) queryOptions ''{}'' None =
     \<lparr>sent = [queryOptions], elapsed = 30000, outcome = Rejected RequestTimeout\<rparr>"
  "makeHttpsRequest (samplePlatform (Response 100 301 None []) Silence) queryOptions ''{}'' None =
     \<lparr>sent = [queryOptions], elapsed = 100, outcome = Uncaught (InvalidURL ''undefined'')\<rparr>"
  by (simp_all add: makeHttpsRequest_def https_request_def redirectHop_def onEnd_def inTime_def
        timeoutParam_def samplePlatform_def twoHosts_def queryOptions_def movedTo_def
        newURL_def sampleURL_def peerURL_def redirectOpts_def accumulate_concat toString_ascii
        sampleParse_def)

text \<open>
  The other ways a redirect request ends, 100 ms after the call: a silent peer (the
  earlier of the two timers rejects; with no timer at all the promise stays pending), a
  socket error before and after the timer of the first request, and a reply that
  \<^verbatim>\<open>JSON.parse\<close> rejects, coming after the timer of the first request.
\<close>

lemma redirect_request_endings:
  "makeHttpsRequest (samplePlatform (movedTo 100) Silence)
     (queryOptions\<lparr>timeout := 500\<rparr>) ''{}'' (Some 3000) =
   \<lparr>sent = [queryOptions\<lparr>timeout := 500\<rparr>,
            redirectOpts peerURL (queryOptions\<lparr>timeout := 500\<rparr>) 3000],
    elapsed = 600, outcome = Rejected RequestTimeout\<rparr>"
  "makeHttpsRequest (samplePlatform (movedTo 100) Silence) queryOptions ''{}'' (Some 1000) =
   \<lparr>sent = [queryOptions, redirectOpts peerURL queryOptions 1000],
    elapsed = 1100, outcome = Rejected RequestTimeout\<rparr>"
  "makeHttpsRequest (samplePlatform (movedTo 100) Silence)
     (queryOptions\<lparr>timeout := 0\<rparr>) ''{}'' (Some 0) =
   \<lparr>sent = [queryOptions\<lparr>timeout := 0\<rparr>,
            redirectOpts peerURL (queryOptions\<lparr>timeout := 0\<rparr>) 0],
    elapsed = 100, outcome = Pending\<rparr>"
  "makeHttpsRequest (samplePlatform (movedTo 100) Silence)
     (queryOptions\<lparr>timeout := 500\<rparr>) ''{}'' (Some 0) =
   \<lparr>sent = [queryOptions\<lparr>timeout := 500\<rparr>,
            redirectOpts peerURL (queryOptions\<lparr>timeout := 500\<rparr>) 0],
    elapsed = 600, outcome = Rejected RequestTimeout\<rparr>"
  "makeHttpsRequest (samplePlatform (movedTo 100) (SocketError 200 ''ECONNRESET''))
     (queryOptions\<lparr>timeout := 500\<rparr>) ''{}'' (Some 3000) =
   \<lparr>sent = [queryOptions\<lparr>timeout := 500\<rparr>,
            redirectOpts peerURL (queryOptions\<lparr>timeout := 500\<rparr>) 3000],
    elapsed = 300, outcome = Rejected (ErrorEvent ''ECONNRESET'')\<rparr>"
  "makeHttpsRequest (samplePlatform (movedTo 100) (SocketError 1500 ''ECONNRESET''))
     (queryOptions\<lparr>timeout := 500\<rparr>) ''{}'' (Some 3000) =
   \<lparr>sent = [queryOptions\<lparr>timeout := 500\<rparr>,
            redirectOpts peerURL (queryOptions\<lparr>timeout := 500\<rparr>) 3000],
    elapsed = 600, outcome = Rejected RequestTimeout\<rparr>"
  "makeHttpsRequest (samplePlatform (movedTo 100) (Response 1500 200 None [''not json'']))
     (queryOptions\<lparr>timeout := 500\<rparr>) ''{}'' (Some 3000) =
   \<lparr>sent = [queryOptions\<lparr>timeout := 500\<rparr>,
            redirectOpts peerURL (queryOptions\<lparr>timeout := 500\<rparr>) 3000],
    elapsed = 1600, outcome = Uncaught (SyntaxError ''not json'')\<rparr>"
  by (simp_all add: makeHttpsRequest_def https_request_def redirectHop_def onEnd_def inTime_def
        timeoutParam_def samplePlatform_def twoHosts_def queryOptions_def movedTo_def
        newURL_def sampleURL_def peerURL_def redirectOpts_def accumulate_concat toString_ascii
        sampleParse_def)

section \<open>The loop and the recursion\<close>

lemma buildBlockTreeWith_bottom:
  "maxDepth \<le> depth \<Longrightarrow> buildBlockTreeWith fetch p depth maxDepth = ([], Inr [])"
  by (subst buildBlockTreeWith.simps) simp

lemma buildBlockTreeWith_fetch_error:
  "depth < maxDepth \<Longrightarrow> fetch p = Inl err \<Longrightarrow>
   buildBlockTreeWith fetch p depth maxDepth = ([p], Inl err)"
  by (subst buildBlockTreeWith.simps) simp

lemma buildBlockTreeWith_loop:
  "depth < maxDepth \<Longrightarrow> fetch p = Inr kids \<Longrightarrow>
   forOf (\<lambda>c. buildBlockTreeWith fetch (uid c) (depth + 1) maxDepth) kids [] = (tr, r) \<Longrightarrow>
   buildBlockTreeWith fetch p depth maxDepth = (p # tr, r)"
  by (subst buildBlockTreeWith.simps) simp

lemma forOf_Inr:
  "forOf sub cs blocks = (tr, Inr bs) \<Longrightarrow>
     \<exists>new. bs = blocks @ new \<and> list_all2 (assembled sub) cs new"
proof (induction cs arbitrary: blocks tr)
  case Nil
  then show ?case by simp
next
  case (Cons c cs)
  from Cons.prems obtain t1 s t2 where
    c: "sub c = (t1, Inr s)" and
    rest: "forOf sub cs (blocks @ [Block (uid c) (string c) (order c) s]) = (t2, Inr bs)"
    by (auto split: prod.splits sum.splits)
  from Cons.IH[OF rest] obtain new where
    new: "bs = (blocks @ [Block (uid c) (string c) (order c) s]) @ new"
      "list_all2 (assembled sub) cs new" by blast
  have "assembled sub c (Block (uid c) (string c) (order c) s)"
    using c by (auto simp: assembled_def)
  with new show ?case by auto
qed

lemma buildBlockTreeWith_Inr:
  assumes "snd (buildBlockTreeWith fetch p d m) = Inr t" and "d < m"
  shows "\<exists>kids. fetch p = Inr kids \<and>
           list_all2 (assembled (\<lambda>c. buildBlockTreeWith fetch (uid c) (d + 1) m)) kids t"
proof -
  from assms obtain kids where k: "fetch p = Inr kids"
    by (cases "fetch p") (auto simp: buildBlockTreeWith_fetch_error)
  obtain tr r where
    l: "forOf (\<lambda>c. buildBlockTreeWith fetch (uid c) (d + 1) m) kids [] = (tr, r)"
    by (cases "forOf (\<lambda>c. buildBlockTreeWith fetch (uid c) (d + 1) m) kids []")
  from buildBlockTreeWith_loop[OF assms(2) k l] assms(1) have "r = Inr t" by simp
  from forOf_Inr[OF l[unfolded this]] k show ?thesis by auto
qed

lemma assembled_order:
  "list_all2 (assembled sub) cs bs \<Longrightarrow> map block_order bs = map order cs"
  by (induction rule: list_all2_induct) (auto simp: assembled_def)

lemma assembled_child:
  assumes "list_all2 (assembled sub) kids t" and "b \<in> set t"
  obtains c tr s where "c \<in> set kids" and "sub c = (tr, Inr s)"
    and "b = Block (uid c) (string c) (order c) s"
proof -
  from assms(2) obtain i where i: "i < length t" "b = t ! i"
    by (auto simp: in_set_conv_nth)
  with assms(1) have len: "i < length kids" by (auto dest: list_all2_lengthD)
  from assms(1) i have "assembled sub (kids ! i) b" by (auto dest: list_all2_nthD2)
  then obtain tr s where "sub (kids ! i) = (tr, Inr s)"
    and "b = Block (uid (kids ! i)) (string (kids ! i)) (order (kids ! i)) s"
    unfolding assembled_def by blast
  moreover have "kids ! i \<in> set kids" using len by simp
  ultimately show ?thesis using that by blast
qed

lemma fetchChildren_Inr:
  "fetchChildren runQuery p = Inr cs \<Longrightarrow> sorted (map order cs)"
  by (auto simp: fetchChildren_def split: sum.splits)

lemma buildBlockTreeWith_sortedLevels:
  "snd (buildBlockTreeWith fetch p d m) = Inr t \<Longrightarrow>
   (\<And>u cs. fetch u = Inr cs \<Longrightarrow> sorted (map order cs)) \<Longrightarrow> sortedLevels t"
proof (induction fetch p d m arbitrary: t rule: buildBlockTreeWith.induct)
  case (1 fetch p d m)
  show ?case
  proof (cases "m \<le> d")
    case True
    with "1.prems"(1) show ?thesis
      by (simp add: sortedLevels_def buildBlockTreeWith_bottom)
  next
    case False
    then have "d < m" by simp
    from buildBlockTreeWith_Inr[OF "1.prems"(1) this] obtain kids where
      k: "fetch p = Inr kids" and
      a: "list_all2 (assembled (\<lambda>c. buildBlockTreeWith fetch (uid c) (d + 1) m)) kids t"
      by blast
    have top: "sorted (map block_order t)"
      using assembled_order[OF a] "1.prems"(2)[OF k] by simp
    have "list_all sortedBlock t"
      unfolding list_all_iff
    proof
      fix b assume "b \<in> set t"
      with a obtain c tr s where c: "c \<in> set kids"
        and s: "buildBlockTreeWith fetch (uid c) (d + 1) m = (tr, Inr s)"
        and b: "b = Block (uid c) (string c) (order c) s"
        by (rule assembled_child)
      from "1.IH"[OF False k c, of s] s "1.prems"(2)
      have "sortedLevels s" by simp
      with b show "sortedBlock b" by (simp add: sortedLevels_def)
    qed
    with top show ?thesis by (simp add: sortedLevels_def)
  qed
qed

lemma nodesAt_Nil [simp]: "nodesAt k [] = []"
  by (cases k) simp_all

lemma buildBlockTreeWith_depth:
  "snd (buildBlockTreeWith fetch p d m) = Inr t \<Longrightarrow> m - d \<le> int k \<Longrightarrow> nodesAt k t = []"
proof (induction fetch p d m arbitrary: t k rule: buildBlockTreeWith.induct)
  case (1 fetch p d m)
  show ?case
  proof (cases "m \<le> d")
    case True
    with "1.prems"(1) show ?thesis by (simp add: buildBlockTreeWith_bottom)
  next
    case False
    then have dm: "d < m" by simp
    from buildBlockTreeWith_Inr[OF "1.prems"(1) this] obtain kids where
      k: "fetch p = Inr kids" and
      a: "list_all2 (assembled (\<lambda>c. buildBlockTreeWith fetch (uid c) (d + 1) m)) kids t"
      by blast
    from dm "1.prems"(2) obtain k' where k': "k = Suc k'" by (cases k) auto
    have "nodesAt k' (block_children b) = []" if "b \<in> set t" for b
    proof -
      from a that obtain c tr s where c: "c \<in> set kids"
        and s: "buildBlockTreeWith fetch (uid c) (d + 1) m = (tr, Inr s)"
        and b: "b = Block (uid c) (string c) (order c) s"
        by (rule assembled_child)
      from "1.IH"[OF False k c, of s k'] s "1.prems"(2) k'
      have "nodesAt k' s = []" by simp
      with b show ?thesis by simp
    qed
    then show ?thesis unfolding k' by simp
  qed
qed

lemma forOf_follows:
  "(\<And>c. c \<in> set cs \<Longrightarrow> follows fetch (P c) (W c) (sub c)) \<Longrightarrow>
   follows fetch (concat (map P cs))
     (blocks @ map (\<lambda>c. Block (uid c) (string c) (order c) (W c)) cs)
     (forOf sub cs blocks)"
proof (induction cs arbitrary: blocks)
  case Nil
  then show ?case by (simp add: follows_def)
next
  case (Cons c cs)
  let ?ok = "\<lambda>v. \<not> isl (fetch v)"
  let ?R = "concat (map P cs)"
  have h: "follows fetch (P c) (W c) (sub c)" using Cons.prems by simp
  show ?case
  proof (cases "list_all ?ok (P c)")
    case True
    with h have s: "sub c = (P c, Inr (W c))" by (simp add: follows_def)
    let ?b = "Block (uid c) (string c) (order c) (W c)"
    have ih: "follows fetch ?R ((blocks @ [?b]) @ map (\<lambda>c. Block (uid c) (string c) (order c) (W c)) cs)
                (forOf sub cs (blocks @ [?b]))"
      using Cons.IH[of "blocks @ [?b]"] Cons.prems by simp
    from True have all: "\<And>x. x \<in> set (P c) \<Longrightarrow> ?ok x" by (simp add: list_all_iff)
    show ?thesis
    proof (cases "list_all ?ok ?R")
      case True
      with ih \<open>list_all ?ok (P c)\<close> s show ?thesis by (simp add: follows_def)
    next
      case False
      have tw: "takeWhile ?ok (P c @ ?R) = P c @ takeWhile ?ok ?R"
        using all by simp
      have dw: "dropWhile ?ok (P c @ ?R) = dropWhile ?ok ?R"
        using all by simp
      from False ih s show ?thesis
        using tw dw by (simp add: follows_def)
    qed
  next
    case False
    then obtain x where x: "x \<in> set (P c)" "\<not> ?ok x" by (auto simp: list_all_iff)
    have tw: "takeWhile ?ok (P c @ ?R) = takeWhile ?ok (P c)"
      using x by simp
    have ne: "dropWhile ?ok (P c) \<noteq> []" using x by auto
    have dw: "hd (dropWhile ?ok (P c @ ?R)) = hd (dropWhile ?ok (P c))"
      using x ne by simp
    from False h have s: "sub c =
        (takeWhile ?ok (P c) @ [hd (dropWhile ?ok (P c))],
         Inl (projl (fetch (hd (dropWhile ?ok (P c))))))"
      by (simp add: follows_def)
    from False s tw dw show ?thesis by (simp add: follows_def)
  qed
qed

lemma buildBlockTreeWith_follows:
  "follows fetch (traversal fetch p d m) (wholeTree fetch p d m) (buildBlockTreeWith fetch p d m)"
proof (induction fetch p d m rule: buildBlockTreeWith.induct)
  case (1 fetch p d m)
  let ?ok = "\<lambda>v. \<not> isl (fetch v)"
  show ?case
  proof (cases "m \<le> d")
    case True
    then show ?thesis
      by (simp add: follows_def buildBlockTreeWith_bottom traversal.simps wholeTree.simps)
  next
    case False
    then have dm: "d < m" by simp
    show ?thesis
    proof (cases "fetch p")
      case (Inl err)
      with False have "traversal fetch p d m = [p]" by (simp add: traversal.simps[of fetch p d m])
      with Inl dm show ?thesis
        by (simp add: follows_def buildBlockTreeWith_fetch_error)
    next
      case (Inr kids)
      let ?P = "\<lambda>c. traversal fetch (uid c) (d + 1) m"
      let ?W = "\<lambda>c. wholeTree fetch (uid c) (d + 1) m"
      let ?sub = "\<lambda>c. buildBlockTreeWith fetch (uid c) (d + 1) m"
      let ?R = "concat (map ?P kids)"
      let ?whole = "map (\<lambda>c. Block (uid c) (string c) (order c) (?W c)) kids"
      have l: "follows fetch ?R ([] @ ?whole) (forOf ?sub kids [])"
        by (rule forOf_follows) (rule "1.IH"[OF False Inr])
      have tr: "traversal fetch p d m = p # ?R"
        using False Inr by (simp add: traversal.simps[of fetch p d m])
      have wh: "wholeTree fetch p d m = ?whole"
        using False Inr by (simp add: wholeTree.simps[of fetch p d m])
      obtain t r where lr: "forOf ?sub kids [] = (t, r)" by (cases "forOf ?sub kids []")
      have b: "buildBlockTreeWith fetch p d m = (p # t, r)"
        using buildBlockTreeWith_loop[OF dm Inr lr] .
      have okp: "?ok p" using Inr by simp
      show ?thesis
      proof (cases "list_all ?ok ?R")
        case True
        with l lr okp show ?thesis unfolding b tr wh by (simp add: follows_def)
      next
        case False
        with l lr okp show ?thesis unfolding b tr wh by (simp add: follows_def)
      qed
    qed
  qed
qed

text \<open>
  The sample runs, evaluated.
\<close>

lemma descendingFetch_run:
  "buildBlockTreeWith descendingFetch ''page'' 0 10 =
     ([''page'', ''b'', ''a''],
      Inr [Block ''b'' ''second'' 1 [], Block ''a'' ''first'' 0 []])"
  by (simp add: buildBlockTreeWith.simps descendingFetch_def)

lemma samplePage_run:
  "buildBlockTree samplePage ''page'' 0 10 =
     ([''page'', ''a'', ''a1'', ''a2'', ''b''],
      Inr [Block ''a'' ''first'' 0
             [Block ''a1'' ''first of a'' 0 [], Block ''a2'' ''second of a'' 1 []],
           Block ''b'' ''second'' 1 []])"
  by (simp add: buildBlockTree_def buildBlockTreeWith.simps fetchChildren_def samplePage_def)

lemma chainFetch_run:
  "buildBlockTreeWith chainFetch ''r'' 0 3 =
     ([''r'', ''xr'', ''xxr''],
      Inr [Block ''xr'' ''r'' 0 [Block ''xxr'' ''xr'' 0 [Block ''xxxr'' ''xxr'' 0 []]]])"
  by (simp add: buildBlockTreeWith.simps chainFetch_def)

lemma brokenFetch_run:
  "buildBlockTreeWith brokenFetch ''page'' 0 10 =
     ([''page'', ''a'', ''a1''], Inl (HttpFailure 503 ''Service Unavailable''))"
  by (simp add: buildBlockTreeWith.simps brokenFetch_def)

lemma brokenFetch_traversal:
  "traversal brokenFetch ''page'' 0 10 = [''page'', ''a'', ''a1'', ''b'']"
  by (simp add: traversal.simps brokenFetch_def)

lemma chainFetch_traversal:
  "traversal chainFetch ''r'' 0 3 = [''r'', ''xr'', ''xxr'']"
  by (simp add: traversal.simps chainFetch_def)

lemma chainFetch_wholeTree:
  "wholeTree chainFetch ''r'' 0 3 =
     [Block ''xr'' ''r'' 0 [Block ''xxr'' ''xr'' 0 [Block ''xxxr'' ''xxr'' 0 []]]]"
  by (simp add: wholeTree.simps chainFetch_def)

lemma sortedLevels_samples:
  "\<not> sortedLevels [Block ''b'' ''second'' 1 [], Block ''a'' ''first'' 0 []]"
  "\<not> sortedLevels
       [Block ''a'' ''first'' 0
          [Block ''a2'' ''second of a'' 1 [], Block ''a1'' ''first of a'' 0 []]]"
  by (simp_all add: sortedLevels_def)

section \<open>Digits and suffixes\<close>

lemma last_decimal: "last (decimal n) = ''0123456789'' ! (n mod 10)"
  by (subst decimal.simps) simp

lemma digit_chars:
  "d < 10 \<Longrightarrow>
   (''0123456789'' ! d = CHR ''1'') = (d = 1) \<and>
   (''0123456789'' ! d = CHR ''2'') = (d = 2) \<and>
   (''0123456789'' ! d = CHR ''3'') = (d = 3)"
proof -
  assume "d < 10"
  then have "d \<in> {0, 1, 2, 3, 4, 5, 6, 7, 8, 9}" by auto
  then show ?thesis by (elim insertE emptyE) simp_all
qed

lemma last_numberToString:
  "0 \<le> k \<Longrightarrow> last (numberToString k) = ''0123456789'' ! (nat k mod 10)"
  by (simp add: numberToString_def last_decimal)

lemma jsRemainder_nonneg: "0 \<le> k \<Longrightarrow> jsRemainder k 10 = int (nat k mod 10)"
  by (cases "k = 0") (simp_all add: jsRemainder_def zmod_int)

lemma getOrdinalSuffix_last_digit:
  assumes "0 \<le> day"
  shows "getOrdinalSuffix day =
     (if 11 \<le> day \<and> day \<le> 13 then ''th''
      else if last (numberToString day) = CHR ''1'' then ''st''
      else if last (numberToString day) = CHR ''2'' then ''nd''
      else if last (numberToString day) = CHR ''3'' then ''rd''
      else ''th'')"
proof -
  have d: "nat day mod 10 < 10" by simp
  have r: "(jsRemainder day 10 = 1) = (nat day mod 10 = 1)"
    "(jsRemainder day 10 = 2) = (nat day mod 10 = 2)"
    "(jsRemainder day 10 = 3) = (nat day mod 10 = 3)"
    using assms by (simp_all add: jsRemainder_nonneg)
  show ?thesis
    unfolding getOrdinalSuffix_def last_numberToString[OF assms] r
    using digit_chars[OF d] by simp
qed

lemma decimal_values:
  "decimal 5 = ''5''" "decimal 21 = ''21''" "decimal 12 = ''12''" "decimal 2026 = ''2026''"
  by (simp_all add: decimal.simps)

text \<open>
  Below zero the remainder keeps the sign of the dividend and the number is printed with its
  sign, so that \<^verbatim>\<open>getOrdinalSuffix(-9)\<close> is \<^verbatim>\<open>'th'\<close>.
\<close>

lemma negative_values:
  "jsRemainder (- 9) 10 = - 9" "jsRemainder 21 10 = 1" "jsRemainder (- 21) 10 = - 1"
  "getOrdinalSuffix (- 9) = ''th''" "numberToString (- 5) = ''-5''"
  by (simp_all add: jsRemainder_def getOrdinalSuffix_def numberToString_def decimal.simps)

text \<open>
  Two titles; the second has a month index that \<^verbatim>\<open>getMonth()\<close> never gives.
\<close>

lemma title_samples:
  "getTodayRoamTitle \<lparr>getMonth = 1, getDate = 5, getFullYear = 2026\<rparr> = ''February 5th, 2026''"
  "getTodayRoamTitle \<lparr>getMonth = 12, getDate = 5, getFullYear = 2026\<rparr> = ''undefined 5th, 2026''"
  by (simp_all add: getTodayRoamTitle_def months_def getOrdinalSuffix_def jsRemainder_def
        numberToString_def decimal.simps)

lemma decimal_one: "n < 10 \<Longrightarrow> decimal n = [''0123456789'' ! n]"
  by (subst decimal.simps) simp

lemma decimal_two:
  "10 \<le> n \<Longrightarrow> n < 100 \<Longrightarrow>
   decimal n = [''0123456789'' ! (n div 10), ''0123456789'' ! (n mod 10)]"
  by (subst decimal.simps) (simp add: decimal_one)

lemma decimal_three:
  "100 \<le> n \<Longrightarrow> n < 1000 \<Longrightarrow>
   decimal n = [''0123456789'' ! (n div 100), ''0123456789'' ! (n div 10 mod 10),
                ''0123456789'' ! (n mod 10)]"
  by (subst decimal.simps) (simp add: decimal_two div_mult2_eq[symmetric])

lemma decimal_four:
  "1000 \<le> n \<Longrightarrow> n < 10000 \<Longrightarrow>
   decimal n = [''0123456789'' ! (n div 1000), ''0123456789'' ! (n div 100 mod 10),
                ''0123456789'' ! (n div 10 mod 10), ''0123456789'' ! (n mod 10)]"
  by (subst decimal.simps) (simp add: decimal_three div_mult2_eq[symmetric])

section \<open>Claims on the block tree reader\<close>

text \<open>
  Claim C1. Whatever the children query returns for each parent, and in whatever
  sequence it returns the rows, \<^verbatim>\<open>buildBlockTree\<close> returns blocks that ascend by \<open>order\<close>
  at every level of the tree.
\<close>

theorem buildBlockTree_sortedLevels:
  "snd (buildBlockTree runQuery parentUid depth maxDepth) = Inr t \<Longrightarrow> sortedLevels t"
  unfolding buildBlockTree_def
  by (erule buildBlockTreeWith_sortedLevels) (rule fetchChildren_Inr)

theorem buildBlockTree_sortedLevels_witness:
  "snd (buildBlockTree samplePage ''page'' 0 10) =
     Inr [Block ''a'' ''first'' 0
            [Block ''a1'' ''first of a'' 0 [], Block ''a2'' ''second of a'' 1 []],
          Block ''b'' ''second'' 1 []] \<and>
   sortedLevels
     [Block ''a'' ''first'' 0
        [Block ''a1'' ''first of a'' 0 [], Block ''a2'' ''second of a'' 1 []],
      Block ''b'' ''second'' 1 []]"
proof -
  have h: "snd (buildBlockTree samplePage ''page'' 0 10) =
     Inr [Block ''a'' ''first'' 0
            [Block ''a1'' ''first of a'' 0 [], Block ''a2'' ''second of a'' 1 []],
          Block ''b'' ''second'' 1 []]"
    by (simp add: samplePage_run)
  from buildBlockTree_sortedLevels[OF h] h show ?thesis by simp
qed

text \<open>
  Claim C5. For every fetch and every maximum depth \<open>N\<close>, the blocks returned by a call
  at depth 0 have no block deeper than \<open>N\<close> levels: \<open>nodesAt k\<close> is empty for every
  \<open>k \<ge> N\<close> (the blocks at depth \<open>k + 1\<close>). With a maximum depth of 0 the result is the
  empty sequence and nothing is fetched.
\<close>

theorem buildBlockTree_depth_bound:
  "(snd (buildBlockTreeWith fetch rootUid 0 N) = Inr t \<longrightarrow>
      (\<forall>k. N \<le> int k \<longrightarrow> nodesAt k t = [])) \<and>
   buildBlockTreeWith fetch rootUid 0 0 = ([], Inr [])"
  using buildBlockTreeWith_depth[of fetch rootUid 0 N t]
  by (simp add: buildBlockTreeWith_bottom)

theorem buildBlockTree_depth_bound_witness:
  "snd (buildBlockTreeWith chainFetch ''r'' 0 3) =
     Inr [Block ''xr'' ''r'' 0 [Block ''xxr'' ''xr'' 0 [Block ''xxxr'' ''xxr'' 0 []]]] \<and>
   nodesAt 2 [Block ''xr'' ''r'' 0 [Block ''xxr'' ''xr'' 0 [Block ''xxxr'' ''xxr'' 0 []]]] =
     [Block ''xxxr'' ''xxr'' 0 []] \<and>
   nodesAt 3 [Block ''xr'' ''r'' 0 [Block ''xxr'' ''xr'' 0 [Block ''xxxr'' ''xxr'' 0 []]]] = [] \<and>
   buildBlockTreeWith chainFetch ''r'' 0 0 = ([], Inr [])"
proof -
  let ?t = "[Block ''xr'' ''r'' 0 [Block ''xxr'' ''xr'' 0 [Block ''xxxr'' ''xxr'' 0 []]]]"
  have h: "snd (buildBlockTreeWith chainFetch ''r'' 0 3) = Inr ?t"
    by (simp add: chainFetch_run)
  have two: "nodesAt 2 ?t = [Block ''xxxr'' ''xxr'' 0 []]"
    by (simp add: numeral_2_eq_2)
  from buildBlockTree_depth_bound[of chainFetch "''r''" 3 ?t] h
  have "nodesAt 3 ?t = [] \<and> buildBlockTreeWith chainFetch ''r'' 0 0 = ([], Inr [])"
    by simp
  with h two show ?thesis by simp
qed

text \<open>
  Claim C8. When the fetch fails for any parent within the depth bound (the root, a
  child of the root or any descendant on the walk), the whole call throws: it throws
  what the first failing fetch of the walk threw, after fetching the parents before it
  and no parent after it, and it returns no blocks. A call that does return blocks has
  fetched every parent of the walk, none of them failed, and the blocks are the whole
  tree.
\<close>

theorem buildBlockTree_fails_whole:
  "(u \<in> set (traversal fetch rootUid depth maxDepth) \<and> fetch u = Inl err \<longrightarrow>
      (\<exists>first e.
          find (\<lambda>v. isl (fetch v)) (traversal fetch rootUid depth maxDepth) = Some first \<and>
          fetch first = Inl e \<and>
          snd (buildBlockTreeWith fetch rootUid depth maxDepth) = Inl e \<and>
          fst (buildBlockTreeWith fetch rootUid depth maxDepth) =
            takeWhile (\<lambda>v. \<not> isl (fetch v)) (traversal fetch rootUid depth maxDepth) @ [first])) \<and>
   (snd (buildBlockTreeWith fetch rootUid depth maxDepth) = Inr t \<longrightarrow>
      list_all (\<lambda>v. \<not> isl (fetch v)) (traversal fetch rootUid depth maxDepth) \<and>
      fst (buildBlockTreeWith fetch rootUid depth maxDepth) =
        traversal fetch rootUid depth maxDepth \<and>
      t = wholeTree fetch rootUid depth maxDepth)"
proof (intro conjI impI)
  let ?ok = "\<lambda>v. \<not> isl (fetch v)"
  let ?P = "traversal fetch rootUid depth maxDepth"
  let ?run = "buildBlockTreeWith fetch rootUid depth maxDepth"
  have f: "follows fetch ?P (wholeTree fetch rootUid depth maxDepth) ?run"
    by (rule buildBlockTreeWith_follows)
  {
    assume a: "u \<in> set ?P \<and> fetch u = Inl err"
    then have "u \<in> set ?P" and "isl (fetch u)" by simp_all
    then have nall: "\<not> list_all ?ok ?P" unfolding list_all_iff by blast
    then have ne: "dropWhile ?ok ?P \<noteq> []" by (auto simp: list_all_iff)
    let ?h = "hd (dropWhile ?ok ?P)"
    from ne have bad: "\<not> ?ok ?h" by (rule hd_dropWhile)
    then obtain e where e: "fetch ?h = Inl e" by (cases "fetch ?h") auto
    have fd: "find (\<lambda>v. isl (fetch v)) ?P = Some ?h"
      using ne by (cases "dropWhile ?ok ?P") (simp_all add: find_dropWhile comp_def)
    from f nall have run: "?run = (takeWhile ?ok ?P @ [?h], Inl (projl (fetch ?h)))"
      by (simp add: follows_def)
    from fd e run show "\<exists>first e.
          find (\<lambda>v. isl (fetch v)) ?P = Some first \<and> fetch first = Inl e \<and>
          snd ?run = Inl e \<and> fst ?run = takeWhile ?ok ?P @ [first]"
      by simp
  }
  {
    assume r: "snd ?run = Inr t"
    have all: "list_all ?ok ?P"
    proof (rule ccontr)
      assume "\<not> list_all ?ok ?P"
      with f have "snd ?run = Inl (projl (fetch (hd (dropWhile ?ok ?P))))"
        by (simp add: follows_def)
      with r show False by simp
    qed
    with f have run: "?run = (?P, Inr (wholeTree fetch rootUid depth maxDepth))"
      by (simp add: follows_def)
    from all show "list_all ?ok ?P" .
    from run show "fst ?run = ?P" by simp
    from run r show "t = wholeTree fetch rootUid depth maxDepth" by simp
  }
qed

theorem buildBlockTree_fails_whole_witness:
  "''a1'' \<in> set (traversal brokenFetch ''page'' 0 10) \<and>
   brokenFetch ''a1'' = Inl (HttpFailure 503 ''Service Unavailable'') \<and>
   snd (buildBlockTreeWith brokenFetch ''page'' 0 10) =
     Inl (HttpFailure 503 ''Service Unavailable'') \<and>
   fst (buildBlockTreeWith brokenFetch ''page'' 0 10) = [''page'', ''a'', ''a1''] \<and>
   snd (buildBlockTreeWith chainFetch ''r'' 0 3) =
     Inr [Block ''xr'' ''r'' 0 [Block ''xxr'' ''xr'' 0 [Block ''xxxr'' ''xxr'' 0 []]]] \<and>
   fst (buildBlockTreeWith chainFetch ''r'' 0 3) = [''r'', ''xr'', ''xxr'']"
proof -
  have h1: "''a1'' \<in> set (traversal brokenFetch ''page'' 0 10)"
    by (simp add: brokenFetch_traversal)
  have h2: "brokenFetch ''a1'' = Inl (HttpFailure 503 ''Service Unavailable'')"
    by (simp add: brokenFetch_def)
  have ok: "\<not> isl (brokenFetch ''page'')" "\<not> isl (brokenFetch ''a'')" "isl (brokenFetch ''a1'')"
    by (simp_all add: brokenFetch_def)
  have h3: "snd (buildBlockTreeWith chainFetch ''r'' 0 3) =
     Inr [Block ''xr'' ''r'' 0 [Block ''xxr'' ''xr'' 0 [Block ''xxxr'' ''xxr'' 0 []]]]"
    by (simp add: chainFetch_run)
  from buildBlockTree_fails_whole[of "''a1''" brokenFetch "''page''" 0 10
         "HttpFailure 503 ''Service Unavailable''"] h1 h2 ok
  have a: "snd (buildBlockTreeWith brokenFetch ''page'' 0 10) =
             Inl (HttpFailure 503 ''Service Unavailable'') \<and>
           fst (buildBlockTreeWith brokenFetch ''page'' 0 10) = [''page'', ''a'', ''a1'']"
    by (auto simp: brokenFetch_traversal)
  from buildBlockTree_fails_whole[of _ chainFetch "''r''" 0 3 _
         "[Block ''xr'' ''r'' 0 [Block ''xxr'' ''xr'' 0 [Block ''xxxr'' ''xxr'' 0 []]]]"] h3
  have b: "fst (buildBlockTreeWith chainFetch ''r'' 0 3) = [''r'', ''xr'', ''xxr'']"
    by (simp add: chainFetch_traversal)
  from a b h1 h2 h3 show ?thesis by simp
qed

text \<open>
  Claim C9. For every result of the children query, \<^verbatim>\<open>fetchChildren\<close> returns the rows
  as \<^verbatim>\<open>{uid, string, order}\<close> objects sorted ascending by \<open>order\<close>: the same objects,
  those of equal order in the sequence of the rows. The sorting happens there and not in
  the recursion: for any fetch, the blocks \<^verbatim>\<open>buildBlockTree\<close> returns carry the orders
  in the sequence the fetch returned them.
\<close>

theorem fetchChildren_sorts:
  "(runQuery parentUid = Inr result \<longrightarrow>
      (\<exists>kids. fetchChildren runQuery parentUid = Inr kids \<and>
          sorted (map order kids) \<and>
          mset kids = mset (map (\<lambda>(u, s, ord). \<lparr>uid = u, string = s, order = ord\<rparr>) result) \<and>
          (\<forall>k. filter (\<lambda>c. order c = k) kids =
               filter (\<lambda>c. order c = k)
                 (map (\<lambda>(u, s, ord). \<lparr>uid = u, string = s, order = ord\<rparr>) result)))) \<and>
   (depth < maxDepth \<and> fetch parentUid = Inr children \<and>
      snd (buildBlockTreeWith fetch parentUid depth maxDepth) = Inr t \<longrightarrow>
      map block_order t = map order children)"
proof (intro conjI impI)
  assume "runQuery parentUid = Inr result"
  then show "\<exists>kids. fetchChildren runQuery parentUid = Inr kids \<and>
       sorted (map order kids) \<and>
       mset kids = mset (map (\<lambda>(u, s, ord). \<lparr>uid = u, string = s, order = ord\<rparr>) result) \<and>
       (\<forall>k. filter (\<lambda>c. order c = k) kids =
            filter (\<lambda>c. order c = k)
              (map (\<lambda>(u, s, ord). \<lparr>uid = u, string = s, order = ord\<rparr>) result))"
    by (simp add: fetchChildren_def sort_key_stable)
next
  assume a: "depth < maxDepth \<and> fetch parentUid = Inr children \<and>
      snd (buildBlockTreeWith fetch parentUid depth maxDepth) = Inr t"
  then have dm: "depth < maxDepth" and k: "fetch parentUid = Inr children"
    and r: "snd (buildBlockTreeWith fetch parentUid depth maxDepth) = Inr t"
    by simp_all
  from buildBlockTreeWith_Inr[OF r dm] k show "map block_order t = map order children"
    by (auto dest: assembled_order)
qed

theorem fetchChildren_sorts_witness:
  "samplePage ''page'' = Inr [(''b'', ''second'', 1), (''a'', ''first'', 0)] \<and>
   fetchChildren samplePage ''page'' =
     Inr [\<lparr>uid = ''a'', string = ''first'', order = 0\<rparr>,
          \<lparr>uid = ''b'', string = ''second'', order = 1\<rparr>] \<and>
   sorted (map order [\<lparr>uid = ''a'', string = ''first'', order = 0\<rparr>,
                      \<lparr>uid = ''b'', string = ''second'', order = 1\<rparr>]) \<and>
   (0::int) < 10 \<and>
   descendingFetch ''page'' =
     Inr [\<lparr>uid = ''b'', string = ''second'', order = 1\<rparr>,
          \<lparr>uid = ''a'', string = ''first'', order = 0\<rparr>] \<and>
   snd (buildBlockTreeWith descendingFetch ''page'' 0 10) =
     Inr [Block ''b'' ''second'' 1 [], Block ''a'' ''first'' 0 []] \<and>
   map block_order [Block ''b'' ''second'' 1 [], Block ''a'' ''first'' 0 []] =
     map order [\<lparr>uid = ''b'', string = ''second'', order = 1\<rparr>,
                \<lparr>uid = ''a'', string = ''first'', order = 0\<rparr>]"
proof -
  have h: "samplePage ''page'' = Inr [(''b'', ''second'', 1), (''a'', ''first'', 0)]"
    by (simp add: samplePage_def)
  have f: "fetchChildren samplePage ''page'' =
     Inr [\<lparr>uid = ''a'', string = ''first'', order = 0\<rparr>,
          \<lparr>uid = ''b'', string = ''second'', order = 1\<rparr>]"
    by (simp add: fetchChildren_def samplePage_def)
  have d: "descendingFetch ''page'' =
     Inr [\<lparr>uid = ''b'', string = ''second'', order = 1\<rparr>,
          \<lparr>uid = ''a'', string = ''first'', order = 0\<rparr>]"
    by (simp add: descendingFetch_def)
  have r: "snd (buildBlockTreeWith descendingFetch ''page'' 0 10) =
     Inr [Block ''b'' ''second'' 1 [], Block ''a'' ''first'' 0 []]"
    by (simp add: descendingFetch_run)
  from fetchChildren_sorts[of samplePage "''page''"
         "[(''b'', ''second'', 1), (''a'', ''first'', 0)]" 0 10 descendingFetch
         "[\<lparr>uid = ''b'', string = ''second'', order = 1\<rparr>,
           \<lparr>uid = ''a'', string = ''first'', order = 0\<rparr>]"
         "[Block ''b'' ''second'' 1 [], Block ''a'' ''first'' 0 []]"]
       h f d r
  show ?thesis by simp
qed

section \<open>Claims on the HTTPS helper\<close>

text \<open>
  Claim C2. When the first response is a redirect (301, 302 or 308) with a \<^verbatim>\<open>Location\<close>
  that parses, exactly two requests are issued, the second to the host, port and path of
  the \<^verbatim>\<open>Location\<close> with the method and the headers of the first. When its response
  arrives before a timer fires, a status 200 with a body that parses resolves the promise
  with the parsed body; a response that is again a redirect is not followed: the promise
  is rejected with its status code and its body.
\<close>

theorem makeHttpsRequest_one_redirect_hop:
  assumes "network pf opts payload = Response ms sc location chunks"
    and "inTime (timeout opts) ms"
    and "sc = 301 \<or> sc = 302 \<or> sc = 308"
    and "URL_parse pf (case location of None \<Rightarrow> ''undefined'' | Some l \<Rightarrow> l) = Some redirectUrl"
    and "network pf
          \<lparr>hostname = url_hostname redirectUrl,
           port = Some (if url_port redirectUrl \<noteq> [] then PortText (url_port redirectUrl)
                        else PortNumber 443),
           path = pathname redirectUrl @ search redirectUrl,
           httpMethod = httpMethod opts,
           headers = headers opts,
           timeout = timeoutParam timeoutArg\<rparr>
          payload = Response ms2 sc2 location2 chunks2"
    and "inTime (timeoutParam timeoutArg) ms2"
    and "inTime (timeout opts) ms2"
  shows "(sc2 = 200 \<and> concat (map toString chunks2) \<noteq> [] \<and>
            JSON_parse pf (concat (map toString chunks2)) = Some v \<longrightarrow>
           outcome (makeHttpsRequest pf opts payload timeoutArg) =
             Resolved \<lparr>statusCode = 200, data = v\<rparr>) \<and>
         (sc2 = 301 \<or> sc2 = 302 \<or> sc2 = 308 \<longrightarrow>
           outcome (makeHttpsRequest pf opts payload timeoutArg) =
             Rejected (HttpFailure sc2 (concat (map toString chunks2)))) \<and>
         sent (makeHttpsRequest pf opts payload timeoutArg) =
           [opts,
            \<lparr>hostname = url_hostname redirectUrl,
           port = Some (if url_port redirectUrl \<noteq> [] then PortText (url_port redirectUrl)
                        else PortNumber 443),
           path = pathname redirectUrl @ search redirectUrl,
           httpMethod = httpMethod opts,
           headers = headers opts,
           timeout = timeoutParam timeoutArg\<rparr>]"
proof -
  have u: "newURL pf location = Inr redirectUrl" using assms(4) by (rule newURL_Inr)
  have n2: "network pf (redirectOpts redirectUrl opts (timeoutParam timeoutArg)) payload =
      Response ms2 sc2 location2 chunks2"
    using assms(5) by (simp add: redirectOpts_def)
  show ?thesis
    unfolding makeHttpsRequest_redirected[OF assms(1-3) u n2 assms(6,7)]
    by (auto simp: onEnd_def accumulate_concat redirectOpts_def)
qed

theorem makeHttpsRequest_one_redirect_hop_witness:
  "outcome (makeHttpsRequest
              (samplePlatform (movedTo 120) (Response 80 200 None [''{\"result\":'', ''[]}'']))
              queryOptions ''{}'' None) =
     Resolved \<lparr>statusCode = 200, data = JObject [(''result'', JArray [])]\<rparr> \<and>
   outcome (makeHttpsRequest
              (samplePlatform (movedTo 120)
                 (Response 80 301 (Some ''https://peer.roamresearch.com/api/graph/notes/q'')
                    [''Moved'']))
              queryOptions ''{}'' None) =
     Rejected (HttpFailure 301 ''Moved'') \<and>
   sent (makeHttpsRequest
              (samplePlatform (movedTo 120) (Response 80 200 None [''{\"result\":'', ''[]}'']))
              queryOptions ''{}'' None) =
     [queryOptions,
      \<lparr>hostname = ''peer.roamresearch.com'', port = Some (PortNumber 443),
       path = ''/api/graph/notes/q'', httpMethod = ''POST'',
       headers = [(''Content-Type'', ''application/json''), (''Content-Length'', ''2''),
                  (''Authorization'', ''Bearer roam-graph-token-x''),
                  (''Accept'', ''application/json'')],
       timeout = 30000\<rparr>]"
proof -
  let ?ok = "Response 80 200 None [''{\"result\":'', ''[]}'']"
  let ?again = "Response 80 301 (Some ''https://peer.roamresearch.com/api/graph/notes/q'')
                    [''Moved'']"
  let ?loc = "Some ''https://peer.roamresearch.com/api/graph/notes/q''"
  have t: "inTime (timeout queryOptions) 120" "inTime (timeout queryOptions) 80"
    by (simp_all add: queryOptions_def inTime_def)
  have t2: "inTime (timeoutParam None) 80" by (simp add: timeoutParam_def inTime_def)
  have u: "\<And>first second. URL_parse (samplePlatform first second)
             (case ?loc of None \<Rightarrow> ''undefined'' | Some l \<Rightarrow> l) = Some peerURL"
    by (simp add: samplePlatform_def sampleURL_def peerURL_def)
  have d: "toString ''{\"result\":'' = ''{\"result\":''" "toString ''[]}'' = ''[]}''"
    "toString ''Moved'' = ''Moved''"
    by (simp_all add: toString_ascii)
  have p: "JSON_parse (samplePlatform (movedTo 120) ?ok) ''{\"result\":[]}'' =
             Some (JObject [(''result'', JArray [])])"
    by (simp add: samplePlatform_def sampleParse_def)
  have l: "\<And>T. \<lparr>hostname = url_hostname peerURL,
           port = Some (if url_port peerURL \<noteq> [] then PortText (url_port peerURL)
                        else PortNumber 443),
           path = pathname peerURL @ search peerURL,
           httpMethod = httpMethod queryOptions,
           headers = headers queryOptions,
           timeout = T\<rparr> = redirectOpts peerURL queryOptions T"
    by (simp add: redirectOpts_def)
  have a: "outcome (makeHttpsRequest (samplePlatform (movedTo 120) ?ok) queryOptions ''{}'' None) =
     Resolved \<lparr>statusCode = 200, data = JObject [(''result'', JArray [])]\<rparr> \<and>
     sent (makeHttpsRequest (samplePlatform (movedTo 120) ?ok) queryOptions ''{}'' None) =
       [queryOptions, redirectOpts peerURL queryOptions (timeoutParam None)]"
    using makeHttpsRequest_one_redirect_hop[of "samplePlatform (movedTo 120) ?ok" queryOptions
        "''{}''" 120 301 ?loc "[]" peerURL None 80 200 None "[''{\"result\":'', ''[]}'']"
        "JObject [(''result'', JArray [])]"]
      t t2 u p
    by (simp add: sample_first sample_second movedTo_def l d)
  have b: "outcome (makeHttpsRequest (samplePlatform (movedTo 120) ?again) queryOptions ''{}'' None) =
     Rejected (HttpFailure 301 ''Moved'')"
    using makeHttpsRequest_one_redirect_hop[of "samplePlatform (movedTo 120) ?again" queryOptions
        "''{}''" 120 301 ?loc "[]" peerURL None 80 301 ?loc "[''Moved'']"]
      t t2 u
    by (simp add: sample_first sample_second movedTo_def l d)
  from a b show ?thesis
    by (simp add: redirectOpts_def peerURL_def queryOptions_def timeoutParam_def)
qed

text \<open>
  Claim C3, as amended. When a redirect is followed, the redirect request is issued with
  the whole configured \<^verbatim>\<open>timeout\<close> as a timeout of its own: the budget is set anew and
  the time the first hop took is not deducted. A reply to the redirect request that
  arrives before that timer and the timer of the first request (still armed, and counting
  from the redirect) is accepted, so the time of both hops together is not bounded by
  the configured timeout. In \<^verbatim>\<open>makeRoamRequest\<close> both requests carry the configured
  timeout.
\<close>

theorem makeHttpsRequest_redirect_own_timeout:
  "(network pf opts payload = Response ms sc location chunks \<and> inTime (timeout opts) ms \<and>
      (sc = 301 \<or> sc = 302 \<or> sc = 308) \<and>
      URL_parse pf (case location of None \<Rightarrow> ''undefined'' | Some l \<Rightarrow> l) = Some redirectUrl \<longrightarrow>
    sent (makeHttpsRequest pf opts payload timeoutArg) =
      [opts,
       \<lparr>hostname = url_hostname redirectUrl,
           port = Some (if url_port redirectUrl \<noteq> [] then PortText (url_port redirectUrl)
                        else PortNumber 443),
           path = pathname redirectUrl @ search redirectUrl,
           httpMethod = httpMethod opts,
           headers = headers opts,
           timeout = timeoutParam timeoutArg\<rparr>] \<and>
    (network pf
       \<lparr>hostname = url_hostname redirectUrl,
           port = Some (if url_port redirectUrl \<noteq> [] then PortText (url_port redirectUrl)
                        else PortNumber 443),
           path = pathname redirectUrl @ search redirectUrl,
           httpMethod = httpMethod opts,
           headers = headers opts,
           timeout = timeoutParam timeoutArg\<rparr>
       payload = Response ms2 sc2 location2 chunks2 \<and>
     inTime (timeoutParam timeoutArg) ms2 \<and> inTime (timeout opts) ms2 \<longrightarrow>
     elapsed (makeHttpsRequest pf opts payload timeoutArg) = ms + ms2 \<and>
     outcome (makeHttpsRequest pf opts payload timeoutArg) =
       onEnd pf sc2 (concat (map toString chunks2)))) \<and>
   (network pf (writeOptions config (JSON_stringify pf body) (timeoutParam timeoutArg))
        (JSON_stringify pf body) = Response ms sc location chunks \<and>
      inTime (timeoutParam timeoutArg) ms \<and>
      (sc = 301 \<or> sc = 302 \<or> sc = 308) \<and>
      URL_parse pf (case location of None \<Rightarrow> ''undefined'' | Some l \<Rightarrow> l) = Some redirectUrl \<and>
      network pf
        (redirectOpts redirectUrl
           (writeOptions config (JSON_stringify pf body) (timeoutParam timeoutArg))
           (timeoutParam timeoutArg))
        (JSON_stringify pf body) = Response ms2 sc2 location2 chunks2 \<and>
      inTime (timeoutParam timeoutArg) ms2 \<longrightarrow>
    elapsed (makeRoamRequest pf config body timeoutArg) = ms + ms2 \<and>
    map timeout (sent (makeRoamRequest pf config body timeoutArg)) =
      [timeoutParam timeoutArg, timeoutParam timeoutArg])"
proof (intro conjI impI)
  let ?T = "timeoutParam timeoutArg"
  let ?r = "redirectOpts redirectUrl opts ?T"
  assume a: "network pf opts payload = Response ms sc location chunks \<and>
      inTime (timeout opts) ms \<and> (sc = 301 \<or> sc = 302 \<or> sc = 308) \<and>
      URL_parse pf (case location of None \<Rightarrow> ''undefined'' | Some l \<Rightarrow> l) = Some redirectUrl"
  then have n1: "network pf opts payload = Response ms sc location chunks"
    and t1: "inTime (timeout opts) ms" and r: "sc = 301 \<or> sc = 302 \<or> sc = 308"
    by blast+
  from a have u: "newURL pf location = Inr redirectUrl" by (intro newURL_Inr) blast
  from makeHttpsRequest_sent[OF n1 t1 r u]
  show "sent (makeHttpsRequest pf opts payload timeoutArg) =
      [opts,
       \<lparr>hostname = url_hostname redirectUrl,
           port = Some (if url_port redirectUrl \<noteq> [] then PortText (url_port redirectUrl)
                        else PortNumber 443),
           path = pathname redirectUrl @ search redirectUrl,
           httpMethod = httpMethod opts,
           headers = headers opts,
           timeout = timeoutParam timeoutArg\<rparr>]"
    by (simp add: redirectOpts_def)
  assume b: "network pf
       \<lparr>hostname = url_hostname redirectUrl,
           port = Some (if url_port redirectUrl \<noteq> [] then PortText (url_port redirectUrl)
                        else PortNumber 443),
           path = pathname redirectUrl @ search redirectUrl,
           httpMethod = httpMethod opts,
           headers = headers opts,
           timeout = timeoutParam timeoutArg\<rparr>
       payload = Response ms2 sc2 location2 chunks2 \<and>
     inTime ?T ms2 \<and> inTime (timeout opts) ms2"
  then have n2: "network pf ?r payload = Response ms2 sc2 location2 chunks2"
    and t2: "inTime ?T ms2" and t3: "inTime (timeout opts) ms2"
    by (simp_all add: redirectOpts_def)
  from makeHttpsRequest_redirected[OF n1 t1 r u n2 t2 t3]
  show "elapsed (makeHttpsRequest pf opts payload timeoutArg) = ms + ms2"
    and "outcome (makeHttpsRequest pf opts payload timeoutArg) =
       onEnd pf sc2 (concat (map toString chunks2))"
    by (simp_all add: accumulate_concat)
next
  let ?T = "timeoutParam timeoutArg"
  let ?p = "JSON_stringify pf body"
  let ?o = "writeOptions config ?p ?T"
  assume a: "network pf ?o ?p = Response ms sc location chunks \<and>
      inTime ?T ms \<and> (sc = 301 \<or> sc = 302 \<or> sc = 308) \<and>
      URL_parse pf (case location of None \<Rightarrow> ''undefined'' | Some l \<Rightarrow> l) = Some redirectUrl \<and>
      network pf (redirectOpts redirectUrl ?o ?T) ?p = Response ms2 sc2 location2 chunks2 \<and>
      inTime ?T ms2"
  have to: "timeout ?o = ?T" by (simp add: writeOptions_def)
  from a have n1: "network pf ?o ?p = Response ms sc location chunks"
    and t1: "inTime (timeout ?o) ms" and r: "sc = 301 \<or> sc = 302 \<or> sc = 308"
    and n2: "network pf (redirectOpts redirectUrl ?o ?T) ?p = Response ms2 sc2 location2 chunks2"
    and t2: "inTime ?T ms2" and t3: "inTime (timeout ?o) ms2"
    unfolding to by blast+
  from a have u: "newURL pf location = Inr redirectUrl" by (intro newURL_Inr) blast
  from makeHttpsRequest_redirected[OF n1 t1 r u n2 t2 t3]
  show "elapsed (makeRoamRequest pf config body timeoutArg) = ms + ms2"
    and "map timeout (sent (makeRoamRequest pf config body timeoutArg)) = [?T, ?T]"
    by (simp_all add: makeRoamRequest_makeHttpsRequest redirectOpts_def writeOptions_def)
qed

theorem makeHttpsRequest_redirect_own_timeout_witness:
  "elapsed (makeHttpsRequest
              (samplePlatform (movedTo 20000) (Response 20000 200 None [''{}'']))
              queryOptions ''{}'' None) = 40000 \<and>
   outcome (makeHttpsRequest
              (samplePlatform (movedTo 20000) (Response 20000 200 None [''{}'']))
              queryOptions ''{}'' None) = Resolved \<lparr>statusCode = 200, data = JObject []\<rparr> \<and>
   map timeout (sent (makeHttpsRequest
              (samplePlatform (movedTo 20000) (Response 20000 200 None [''{}'']))
              queryOptions ''{}'' None)) = [30000, 30000]"
proof -
  let ?pf = "samplePlatform (movedTo 20000) (Response 20000 200 None [''{}''])"
  let ?loc = "Some ''https://peer.roamresearch.com/api/graph/notes/q''"
  have t: "inTime (timeout queryOptions) 20000" by (simp add: queryOptions_def inTime_def)
  have t2: "inTime (timeoutParam None) 20000" by (simp add: timeoutParam_def inTime_def)
  have u: "URL_parse ?pf (case ?loc of None \<Rightarrow> ''undefined'' | Some l \<Rightarrow> l) = Some peerURL"
    by (simp add: samplePlatform_def sampleURL_def peerURL_def)
  have d: "toString ''{}'' = ''{}''" by (simp add: toString_ascii)
  have e: "onEnd ?pf 200 ''{}'' = Resolved \<lparr>statusCode = 200, data = JObject []\<rparr>"
    by (simp add: onEnd_def samplePlatform_def sampleParse_def)
  have l: "\<And>T. \<lparr>hostname = url_hostname peerURL,
           port = Some (if url_port peerURL \<noteq> [] then PortText (url_port peerURL)
                        else PortNumber 443),
           path = pathname peerURL @ search peerURL,
           httpMethod = httpMethod queryOptions,
           headers = headers queryOptions,
           timeout = T\<rparr> = redirectOpts peerURL queryOptions T"
    by (simp add: redirectOpts_def)
  from makeHttpsRequest_redirect_own_timeout[of ?pf queryOptions "''{}''" 20000 301 ?loc "[]"
         peerURL None 20000 200 None "[''{}'']"] t t2 u
  have "elapsed (makeHttpsRequest ?pf queryOptions ''{}'' None) = 20000 + 20000 \<and>
        outcome (makeHttpsRequest ?pf queryOptions ''{}'' None) = onEnd ?pf 200 ''{}'' \<and>
        sent (makeHttpsRequest ?pf queryOptions ''{}'' None) =
          [queryOptions, redirectOpts peerURL queryOptions (timeoutParam None)]"
    by (simp add: sample_first sample_second movedTo_def l d)
  with e show ?thesis
    by (simp add: redirectOpts_def timeoutParam_def queryOptions_def)
qed

text \<open>
  Claim C3 as it is written fails: with a timeout of 30000 ms on both requests, a
  redirect that arrives after 20000 ms followed by a response that arrives 20000 ms after
  the redirect request resolves the promise, 40000 ms after the call.
\<close>

theorem makeHttpsRequest_redirect_exceeds_budget:
  "outcome (makeHttpsRequest
              (samplePlatform (movedTo 20000) (Response 20000 200 None [''{}'']))
              queryOptions ''{}'' (Some 30000)) =
     Resolved \<lparr>statusCode = 200, data = JObject []\<rparr> \<and>
   timeout queryOptions = 30000 \<and>
   \<not> elapsed (makeHttpsRequest
              (samplePlatform (movedTo 20000) (Response 20000 200 None [''{}'']))
              queryOptions ''{}'' (Some 30000)) \<le> 30000"
proof -
  let ?pf = "samplePlatform (movedTo 20000) (Response 20000 200 None [''{}''])"
  have t: "inTime (timeout queryOptions) 20000" by (simp add: queryOptions_def inTime_def)
  have t2: "inTime (timeoutParam (Some 30000)) 20000" by (simp add: timeoutParam_def inTime_def)
  have d: "accumulate [''{}''] = ''{}''" by (simp add: accumulate_concat toString_ascii)
  have "makeHttpsRequest ?pf queryOptions ''{}'' (Some 30000) =
          \<lparr>sent = [queryOptions, redirectOpts peerURL queryOptions (timeoutParam (Some 30000))],
           elapsed = 20000 + 20000, outcome = onEnd ?pf 200 (accumulate [''{}''])\<rparr>"
    using makeHttpsRequest_redirected[of ?pf queryOptions "''{}''" 20000 301
        "Some ''https://peer.roamresearch.com/api/graph/notes/q''" "[]" peerURL "Some 30000"
        20000 200 None "[''{}'']"] t t2
    by (simp add: sample_first sample_second sample_redirect movedTo_def)
  then show ?thesis
    by (simp add: d onEnd_def samplePlatform_def sampleParse_def queryOptions_def)
qed

text \<open>
  Claim C4, what the code does. For a final response with status 200 and a body that is
  not empty and that \<^verbatim>\<open>JSON.parse\<close> rejects, the \<^verbatim>\<open>SyntaxError\<close> is thrown inside the
  \<^verbatim>\<open>'end'\<close> listener and is an uncaught exception. The listener neither resolves (there
  is no empty success) nor rejects, so the parse error does not reach the caller of the
  helper as the failure of the call, as it would if the listener called \<^verbatim>\<open>reject\<close> the
  way it does for every other status.
\<close>

theorem makeHttpsRequest_parse_error_uncaught:
  "(network pf opts payload = Response ms 200 location chunks \<and> ms < timeout opts \<and>
      concat (map toString chunks) \<noteq> [] \<and>
      JSON_parse pf (concat (map toString chunks)) = None \<longrightarrow>
    outcome (makeHttpsRequest pf opts payload timeoutArg) =
      Uncaught (SyntaxError (concat (map toString chunks)))) \<and>
   (network pf opts payload = Response ms sc location chunks \<and> ms < timeout opts \<and>
      (sc = 301 \<or> sc = 302 \<or> sc = 308) \<and> newURL pf location = Inr redirectUrl \<and>
      network pf (redirectOpts redirectUrl opts (timeoutParam timeoutArg)) payload =
        Response ms2 200 location2 chunks2 \<and> ms2 < timeoutParam timeoutArg \<and>
      concat (map toString chunks2) \<noteq> [] \<and>
      JSON_parse pf (concat (map toString chunks2)) = None \<longrightarrow>
    outcome (makeHttpsRequest pf opts payload timeoutArg) =
      Uncaught (SyntaxError (concat (map toString chunks2))))"
proof (intro conjI impI)
  assume a: "network pf opts payload = Response ms 200 location chunks \<and> ms < timeout opts \<and>
      concat (map toString chunks) \<noteq> [] \<and>
      JSON_parse pf (concat (map toString chunks)) = None"
  then have "inTime (timeout opts) ms" by (simp add: inTime_def)
  with a have "makeHttpsRequest pf opts payload timeoutArg =
      \<lparr>sent = [opts], elapsed = ms, outcome = onEnd pf 200 (accumulate chunks)\<rparr>"
    by (intro makeHttpsRequest_direct) simp_all
  with a show "outcome (makeHttpsRequest pf opts payload timeoutArg) =
      Uncaught (SyntaxError (concat (map toString chunks)))"
    by (simp add: onEnd_def accumulate_concat)
next
  assume a: "network pf opts payload = Response ms sc location chunks \<and> ms < timeout opts \<and>
      (sc = 301 \<or> sc = 302 \<or> sc = 308) \<and> newURL pf location = Inr redirectUrl \<and>
      network pf (redirectOpts redirectUrl opts (timeoutParam timeoutArg)) payload =
        Response ms2 200 location2 chunks2 \<and> ms2 < timeoutParam timeoutArg \<and>
      concat (map toString chunks2) \<noteq> [] \<and>
      JSON_parse pf (concat (map toString chunks2)) = None"
  then have n1: "network pf opts payload = Response ms sc location chunks"
    and r: "sc = 301 \<or> sc = 302 \<or> sc = 308" and u: "newURL pf location = Inr redirectUrl"
    and n2: "network pf (redirectOpts redirectUrl opts (timeoutParam timeoutArg)) payload =
        Response ms2 200 location2 chunks2"
    by blast+
  from a have t1: "inTime (timeout opts) ms" and t2: "inTime (timeoutParam timeoutArg) ms2"
    by (simp_all add: inTime_def)
  from a have "onEnd pf 200 (accumulate chunks2) = Uncaught (SyntaxError (accumulate chunks2))"
    by (simp add: onEnd_def accumulate_concat)
  from makeHttpsRequest_hop[OF n1 t1 r u n2 t2] redirectHop_Uncaught[OF this]
  show "outcome (makeHttpsRequest pf opts payload timeoutArg) =
      Uncaught (SyntaxError (concat (map toString chunks2)))"
    by (simp add: accumulate_concat)
qed

theorem makeHttpsRequest_parse_error_uncaught_witness:
  "outcome (makeHttpsRequest (samplePlatform (Response 50 200 None [''not json'']) Silence)
              queryOptions ''{}'' None) = Uncaught (SyntaxError ''not json'')"
proof -
  let ?pf = "samplePlatform (Response 50 200 None [''not json'']) Silence"
  have t: "(50::nat) < timeout queryOptions" by (simp add: queryOptions_def)
  have d: "toString ''not json'' = ''not json''" by (simp add: toString_ascii)
  have p: "JSON_parse ?pf ''not json'' = None"
    by (simp add: samplePlatform_def sampleParse_def)
  from makeHttpsRequest_parse_error_uncaught[of ?pf queryOptions "''{}''" 50 None
         "[''not json'']" None] t p
  show ?thesis by (simp add: sample_first d)
qed

text \<open>
  Claim C6. A final response with status 200 and an empty body that arrives before a
  timer fires resolves the promise with the empty object \<^verbatim>\<open>{}\<close>, for the first response
  and for the response to the redirect request alike; \<^verbatim>\<open>JSON.parse\<close> is not consulted.
\<close>

theorem makeHttpsRequest_empty_body:
  "(network pf opts payload = Response ms 200 location chunks \<and> inTime (timeout opts) ms \<and>
      concat chunks = [] \<longrightarrow>
    outcome (makeHttpsRequest pf opts payload timeoutArg) =
      Resolved \<lparr>statusCode = 200, data = JObject []\<rparr>) \<and>
   (network pf opts payload = Response ms sc location chunks \<and> inTime (timeout opts) ms \<and>
      (sc = 301 \<or> sc = 302 \<or> sc = 308) \<and> newURL pf location = Inr redirectUrl \<and>
      network pf (redirectOpts redirectUrl opts (timeoutParam timeoutArg)) payload =
        Response ms2 200 location2 chunks2 \<and>
      inTime (timeoutParam timeoutArg) ms2 \<and> inTime (timeout opts) ms2 \<and>
      concat chunks2 = [] \<longrightarrow>
    outcome (makeHttpsRequest pf opts payload timeoutArg) =
      Resolved \<lparr>statusCode = 200, data = JObject []\<rparr>)"
proof (intro conjI impI)
  assume a: "network pf opts payload = Response ms 200 location chunks \<and>
      inTime (timeout opts) ms \<and> concat chunks = []"
  then have "accumulate chunks = []" by (intro accumulate_empty) blast
  with a show "outcome (makeHttpsRequest pf opts payload timeoutArg) =
      Resolved \<lparr>statusCode = 200, data = JObject []\<rparr>"
    by (simp add: makeHttpsRequest_direct onEnd_def)
next
  assume a: "network pf opts payload = Response ms sc location chunks \<and>
      inTime (timeout opts) ms \<and>
      (sc = 301 \<or> sc = 302 \<or> sc = 308) \<and> newURL pf location = Inr redirectUrl \<and>
      network pf (redirectOpts redirectUrl opts (timeoutParam timeoutArg)) payload =
        Response ms2 200 location2 chunks2 \<and>
      inTime (timeoutParam timeoutArg) ms2 \<and> inTime (timeout opts) ms2 \<and>
      concat chunks2 = []"
  then have e: "accumulate chunks2 = []" by (intro accumulate_empty) blast
  have "makeHttpsRequest pf opts payload timeoutArg =
           \<lparr>sent = [opts, redirectOpts redirectUrl opts (timeoutParam timeoutArg)],
            elapsed = ms + ms2, outcome = onEnd pf 200 (accumulate chunks2)\<rparr>"
    by (rule makeHttpsRequest_redirected) (use a in blast)+
  with e show "outcome (makeHttpsRequest pf opts payload timeoutArg) =
      Resolved \<lparr>statusCode = 200, data = JObject []\<rparr>"
    by (simp add: onEnd_def)
qed

theorem makeHttpsRequest_empty_body_witness:
  "outcome (makeHttpsRequest (samplePlatform (Response 50 200 None []) Silence)
              queryOptions ''{}'' None) = Resolved \<lparr>statusCode = 200, data = JObject []\<rparr> \<and>
   outcome (makeHttpsRequest (samplePlatform (movedTo 120) (Response 80 200 None [[]]))
              queryOptions ''{}'' None) = Resolved \<lparr>statusCode = 200, data = JObject []\<rparr>"
proof -
  have t: "inTime (timeout queryOptions) 50" "inTime (timeout queryOptions) 120"
    "inTime (timeout queryOptions) 80"
    by (simp_all add: queryOptions_def inTime_def)
  have t2: "inTime (timeoutParam None) 80" by (simp add: timeoutParam_def inTime_def)
  have a: "outcome (makeHttpsRequest (samplePlatform (Response 50 200 None []) Silence)
              queryOptions ''{}'' None) = Resolved \<lparr>statusCode = 200, data = JObject []\<rparr>"
    using makeHttpsRequest_empty_body[of "samplePlatform (Response 50 200 None []) Silence"
        queryOptions "''{}''" 50 None "[]" None] t
    by (simp add: sample_first)
  have b: "outcome (makeHttpsRequest (samplePlatform (movedTo 120) (Response 80 200 None [[]]))
              queryOptions ''{}'' None) = Resolved \<lparr>statusCode = 200, data = JObject []\<rparr>"
    using makeHttpsRequest_empty_body[of "samplePlatform (movedTo 120) (Response 80 200 None [[]])"
        queryOptions "''{}''" 120 "Some ''https://peer.roamresearch.com/api/graph/notes/q''" "[]"
        None 301 peerURL 80 None "[[]]"] t t2
    by (simp add: sample_first sample_second sample_redirect movedTo_def)
  from a b show ?thesis by simp
qed

text \<open>
  Claim C7, what the code does. A final response whose status is not 200 (a first
  response that is not a redirect, or any response to the redirect request, a second
  redirect included) and that arrives before a timer fires rejects the promise with
  \<^verbatim>\<open>{statusCode, message}\<close>. The message is not parsed: the result is the same whatever
  \<^verbatim>\<open>JSON.parse\<close> would do with it. The message is the chunks decoded one by one and
  joined, which is the body as it was received only when no character is split between
  two chunks: the two bytes of one character, arriving in two chunks, become two U+FFFD.
  \<^verbatim>\<open>makeRoamRequest\<close> rejects a first response in the same way.
\<close>

theorem makeHttpsRequest_non200_raw:
  "(network pf opts payload = Response ms sc location chunks \<and> inTime (timeout opts) ms \<and>
      sc \<noteq> 200 \<and> sc \<noteq> 301 \<and> sc \<noteq> 302 \<and> sc \<noteq> 308 \<longrightarrow>
    outcome (makeHttpsRequest (pf\<lparr>JSON_parse := parse\<rparr>) opts payload timeoutArg) =
      Rejected (HttpFailure sc (concat (map toString chunks)))) \<and>
   (network pf opts payload = Response ms sc location chunks \<and> inTime (timeout opts) ms \<and>
      (sc = 301 \<or> sc = 302 \<or> sc = 308) \<and> newURL pf location = Inr redirectUrl \<and>
      network pf (redirectOpts redirectUrl opts (timeoutParam timeoutArg)) payload =
        Response ms2 sc2 location2 chunks2 \<and>
      inTime (timeoutParam timeoutArg) ms2 \<and> inTime (timeout opts) ms2 \<and>
      sc2 \<noteq> 200 \<longrightarrow>
    outcome (makeHttpsRequest (pf\<lparr>JSON_parse := parse\<rparr>) opts payload timeoutArg) =
      Rejected (HttpFailure sc2 (concat (map toString chunks2)))) \<and>
   (network pf (writeOptions config (JSON_stringify pf body) (timeoutParam timeoutArg))
        (JSON_stringify pf body) = Response ms sc location chunks \<and>
      inTime (timeoutParam timeoutArg) ms \<and>
      sc \<noteq> 200 \<and> sc \<noteq> 301 \<and> sc \<noteq> 302 \<and> sc \<noteq> 308 \<longrightarrow>
    outcome (makeRoamRequest (pf\<lparr>JSON_parse := parse\<rparr>) config body timeoutArg) =
      Rejected (HttpFailure sc (concat (map toString chunks))))"
proof (intro conjI impI)
  assume "network pf opts payload = Response ms sc location chunks \<and>
      inTime (timeout opts) ms \<and>
      sc \<noteq> 200 \<and> sc \<noteq> 301 \<and> sc \<noteq> 302 \<and> sc \<noteq> 308"
  then show "outcome (makeHttpsRequest (pf\<lparr>JSON_parse := parse\<rparr>) opts payload timeoutArg) =
      Rejected (HttpFailure sc (concat (map toString chunks)))"
    by (simp add: makeHttpsRequest_direct onEnd_def accumulate_concat)
next
  assume a: "network pf opts payload = Response ms sc location chunks \<and>
      inTime (timeout opts) ms \<and>
      (sc = 301 \<or> sc = 302 \<or> sc = 308) \<and> newURL pf location = Inr redirectUrl \<and>
      network pf (redirectOpts redirectUrl opts (timeoutParam timeoutArg)) payload =
        Response ms2 sc2 location2 chunks2 \<and>
      inTime (timeoutParam timeoutArg) ms2 \<and> inTime (timeout opts) ms2 \<and>
      sc2 \<noteq> 200"
  let ?pf = "pf\<lparr>JSON_parse := parse\<rparr>"
  from a have n1: "network ?pf opts payload = Response ms sc location chunks"
    and n2: "network ?pf (redirectOpts redirectUrl opts (timeoutParam timeoutArg)) payload =
        Response ms2 sc2 location2 chunks2"
    and u: "newURL ?pf location = Inr redirectUrl"
    by simp_all
  from a have t: "inTime (timeout opts) ms" "inTime (timeoutParam timeoutArg) ms2"
    "inTime (timeout opts) ms2"
    and r: "sc = 301 \<or> sc = 302 \<or> sc = 308"
    by blast+
  have "makeHttpsRequest ?pf opts payload timeoutArg =
           \<lparr>sent = [opts, redirectOpts redirectUrl opts (timeoutParam timeoutArg)],
            elapsed = ms + ms2, outcome = onEnd ?pf sc2 (accumulate chunks2)\<rparr>"
    by (rule makeHttpsRequest_redirected[OF n1 t(1) r u n2 t(2) t(3)])
  with a show "outcome (makeHttpsRequest ?pf opts payload timeoutArg) =
      Rejected (HttpFailure sc2 (concat (map toString chunks2)))"
    by (simp add: onEnd_def accumulate_concat)
next
  let ?pf = "pf\<lparr>JSON_parse := parse\<rparr>"
  let ?payload = "JSON_stringify pf body"
  let ?options = "writeOptions config ?payload (timeoutParam timeoutArg)"
  assume a: "network pf ?options ?payload = Response ms sc location chunks \<and>
      inTime (timeoutParam timeoutArg) ms \<and>
      sc \<noteq> 200 \<and> sc \<noteq> 301 \<and> sc \<noteq> 302 \<and> sc \<noteq> 308"
  then have n: "network ?pf ?options ?payload = Response ms sc location chunks"
    and t: "inTime (timeout ?options) ms"
    by (simp_all add: writeOptions_def)
  from a have "makeHttpsRequest ?pf ?options ?payload timeoutArg =
      \<lparr>sent = [?options], elapsed = ms, outcome = onEnd ?pf sc (accumulate chunks)\<rparr>"
    by (intro makeHttpsRequest_direct[OF n t]) simp_all
  with a show "outcome (makeRoamRequest ?pf config body timeoutArg) =
      Rejected (HttpFailure sc (concat (map toString chunks)))"
    by (simp add: makeRoamRequest_makeHttpsRequest onEnd_def accumulate_concat)
qed

theorem makeHttpsRequest_non200_raw_witness:
  "outcome (makeHttpsRequest
              (samplePlatform (Response 50 429 None [''{\"message\":'', ''\"slow down\"}'']) Silence)
              queryOptions ''{}'' None) =
     Rejected (HttpFailure 429 ''{\"message\":\"slow down\"}'') \<and>
   outcome (makeHttpsRequest
              (samplePlatform (movedTo 120) (Response 80 503 None [''Service '', ''Unavailable'']))
              queryOptions ''{}'' None) =
     Rejected (HttpFailure 503 ''Service Unavailable'') \<and>
   outcome (makeHttpsRequest
              (samplePlatform (Response 50 503 None [[CHR 0xC3], [CHR 0xA9]]) Silence)
              queryOptions ''{}'' None) =
     Rejected (HttpFailure 503 [CHR 0xEF, CHR 0xBF, CHR 0xBD, CHR 0xEF, CHR 0xBF, CHR 0xBD]) \<and>
   toString (concat [[CHR 0xC3], [CHR 0xA9]]) = [CHR 0xC3, CHR 0xA9]"
proof -
  let ?p1 = "samplePlatform (Response 50 429 None [''{\"message\":'', ''\"slow down\"}'']) Silence"
  let ?p2 = "samplePlatform (movedTo 120) (Response 80 503 None [''Service '', ''Unavailable''])"
  let ?p3 = "samplePlatform (Response 50 503 None [[CHR 0xC3], [CHR 0xA9]]) Silence"
  have t: "inTime (timeout queryOptions) 50" "inTime (timeout queryOptions) 120"
    "inTime (timeout queryOptions) 80"
    by (simp_all add: queryOptions_def inTime_def)
  have t2: "inTime (timeoutParam None) 80" by (simp add: timeoutParam_def inTime_def)
  have s: "\<And>first second.
      (samplePlatform first second)\<lparr>JSON_parse := sampleParse\<rparr> = samplePlatform first second"
    by (simp add: samplePlatform_def)
  have d: "toString ''{\"message\":'' = ''{\"message\":''"
    "toString ''\"slow down\"}'' = ''\"slow down\"}''"
    "toString ''Service '' = ''Service ''" "toString ''Unavailable'' = ''Unavailable''"
    by (simp_all add: toString_ascii)
  have a: "outcome (makeHttpsRequest ?p1 queryOptions ''{}'' None) =
     Rejected (HttpFailure 429 ''{\"message\":\"slow down\"}'')"
    using makeHttpsRequest_non200_raw[of ?p1 queryOptions "''{}''" 50 429 None
        "[''{\"message\":'', ''\"slow down\"}'']" sampleParse None] t
    by (simp add: sample_first s d)
  have b: "outcome (makeHttpsRequest ?p2 queryOptions ''{}'' None) =
     Rejected (HttpFailure 503 ''Service Unavailable'')"
    using makeHttpsRequest_non200_raw[of ?p2 queryOptions "''{}''" 120 301
        "Some ''https://peer.roamresearch.com/api/graph/notes/q''" "[]" sampleParse None
        peerURL 80 503 None "[''Service '', ''Unavailable'']"] t t2
    by (simp add: sample_first sample_second sample_redirect movedTo_def s d)
  have c: "outcome (makeHttpsRequest ?p3 queryOptions ''{}'' None) =
     Rejected (HttpFailure 503 [CHR 0xEF, CHR 0xBF, CHR 0xBD, CHR 0xEF, CHR 0xBF, CHR 0xBD])"
    using makeHttpsRequest_non200_raw[of ?p3 queryOptions "''{}''" 50 503 None
        "[[CHR 0xC3], [CHR 0xA9]]" sampleParse None] t
    by (simp add: sample_first s split_character)
  from a b c show ?thesis by (simp add: split_character)
qed

section \<open>Claim on the daily note title\<close>

text \<open>
  Claim C10. For every date the title is the name of the month (January to December
  for the months 0 to 11), a space, the day in decimal digits, its ordinal suffix, a
  comma and a space, and the year (four decimal digits for the years 1000 to 9999). The
  suffix is \<open>th\<close> for the days 11 to 13; otherwise it is \<open>st\<close>, \<open>nd\<close> or \<open>rd\<close> when the last
  digit of the printed day is 1, 2 or 3, and \<open>th\<close> for any other last digit.
\<close>

theorem getTodayRoamTitle_form:
  assumes "getMonth now < 12" and "1 \<le> getDate now" and "getDate now \<le> 31"
  shows "getTodayRoamTitle now =
           [''January'', ''February'', ''March'', ''April'', ''May'', ''June'',
            ''July'', ''August'', ''September'', ''October'', ''November'', ''December'']
             ! getMonth now @ '' '' @ numberToString (getDate now) @
           getOrdinalSuffix (getDate now) @ '', '' @ numberToString (getFullYear now) \<and>
         numberToString (getDate now) =
           (if getDate now < 10 then [''0123456789'' ! nat (getDate now)]
            else [''0123456789'' ! (nat (getDate now) div 10),
                  ''0123456789'' ! (nat (getDate now) mod 10)]) \<and>
         (1000 \<le> getFullYear now \<and> getFullYear now \<le> 9999 \<longrightarrow>
          numberToString (getFullYear now) =
            [''0123456789'' ! (nat (getFullYear now) div 1000),
             ''0123456789'' ! (nat (getFullYear now) div 100 mod 10),
             ''0123456789'' ! (nat (getFullYear now) div 10 mod 10),
             ''0123456789'' ! (nat (getFullYear now) mod 10)]) \<and>
         getOrdinalSuffix (getDate now) =
           (if 11 \<le> getDate now \<and> getDate now \<le> 13 then ''th''
            else if last (numberToString (getDate now)) = CHR ''1'' then ''st''
            else if last (numberToString (getDate now)) = CHR ''2'' then ''nd''
            else if last (numberToString (getDate now)) = CHR ''3'' then ''rd''
            else ''th'')"
proof (intro conjI impI)
  show "getTodayRoamTitle now =
           [''January'', ''February'', ''March'', ''April'', ''May'', ''June'',
            ''July'', ''August'', ''September'', ''October'', ''November'', ''December'']
             ! getMonth now @ '' '' @ numberToString (getDate now) @
           getOrdinalSuffix (getDate now) @ '', '' @ numberToString (getFullYear now)"
    using assms(1) by (simp add: getTodayRoamTitle_def months_def Let_def)
next
  have d0: "0 \<le> getDate now" using assms(2) by simp
  show "numberToString (getDate now) =
           (if getDate now < 10 then [''0123456789'' ! nat (getDate now)]
            else [''0123456789'' ! (nat (getDate now) div 10),
                  ''0123456789'' ! (nat (getDate now) mod 10)])"
  proof (cases "getDate now < 10")
    case True
    with d0 show ?thesis by (simp add: numberToString_def decimal_one)
  next
    case False
    with assms(3) have "10 \<le> nat (getDate now)" "nat (getDate now) < 100" by simp_all
    from decimal_two[OF this] False d0 show ?thesis
      by (simp add: numberToString_def)
  qed
next
  assume y: "1000 \<le> getFullYear now \<and> getFullYear now \<le> 9999"
  then have "1000 \<le> nat (getFullYear now)" "nat (getFullYear now) < 10000" by linarith+
  from decimal_four[OF this] y
  show "numberToString (getFullYear now) =
            [''0123456789'' ! (nat (getFullYear now) div 1000),
             ''0123456789'' ! (nat (getFullYear now) div 100 mod 10),
             ''0123456789'' ! (nat (getFullYear now) div 10 mod 10),
             ''0123456789'' ! (nat (getFullYear now) mod 10)]"
    by (simp add: numberToString_def)
next
  have "0 \<le> getDate now" using assms(2) by simp
  from getOrdinalSuffix_last_digit[OF this]
  show "getOrdinalSuffix (getDate now) =
           (if 11 \<le> getDate now \<and> getDate now \<le> 13 then ''th''
            else if last (numberToString (getDate now)) = CHR ''1'' then ''st''
            else if last (numberToString (getDate now)) = CHR ''2'' then ''nd''
            else if last (numberToString (getDate now)) = CHR ''3'' then ''rd''
            else ''th'')" .
qed

theorem getTodayRoamTitle_form_witness:
  "getTodayRoamTitle \<lparr>getMonth = 1, getDate = 5, getFullYear = 2026\<rparr> = ''February 5th, 2026'' \<and>
   getTodayRoamTitle \<lparr>getMonth = 0, getDate = 21, getFullYear = 2026\<rparr> = ''January 21st, 2026'' \<and>
   getTodayRoamTitle \<lparr>getMonth = 11, getDate = 12, getFullYear = 2026\<rparr> = ''December 12th, 2026''"
proof -
  have a: "getTodayRoamTitle \<lparr>getMonth = 1, getDate = 5, getFullYear = 2026\<rparr> = ''February 5th, 2026''"
    using getTodayRoamTitle_form[of "\<lparr>getMonth = 1, getDate = 5, getFullYear = 2026\<rparr>"]
    by (simp add: numberToString_def decimal_values)
  have b: "getTodayRoamTitle \<lparr>getMonth = 0, getDate = 21, getFullYear = 2026\<rparr> = ''January 21st, 2026''"
    using getTodayRoamTitle_form[of "\<lparr>getMonth = 0, getDate = 21, getFullYear = 2026\<rparr>"]
    by (simp add: numberToString_def decimal_values)
  have c: "getTodayRoamTitle \<lparr>getMonth = 11, getDate = 12, getFullYear = 2026\<rparr> = ''December 12th, 2026''"
    using getTodayRoamTitle_form[of "\<lparr>getMonth = 11, getDate = 12, getFullYear = 2026\<rparr>"]
    by (simp add: numberToString_def decimal_values)
  from a b c show ?thesis by simp
qed

end
